theory Spec2Isabelle
  imports Main
begin

section \<open>JavaScript values\<close>

text \<open>
  The generator works on the value that \<^verbatim>\<open>JSON.parse\<close> returns. A parsed document is a
  \<open>json\<close> value; an object is the list of its own properties in enumeration order (keys
  are distinct after parsing). A JavaScript value that may be \<^verbatim>\<open>undefined\<close> (the result of
  reading a property) is a \<open>json option\<close>, with \<open>None\<close> for \<^verbatim>\<open>undefined\<close>.

  A string is the sequence of the bytes of its UTF-8 encoding, the encoding in which the
  document is read and the server file is written; an ASCII character is one byte.

  The generator computes nothing with a number: it tests it for truth, compares it with
  \<^verbatim>\<open>===\<close> and prints it. A number is therefore the text \<^verbatim>\<open>String(n)\<close> that JavaScript prints
  for it (\<^verbatim>\<open>5\<close>, \<^verbatim>\<open>0.5\<close>, \<^verbatim>\<open>1e+21\<close>, \<^verbatim>\<open>Infinity\<close> for a literal that overflows). Two numbers
  a document can hold are \<^verbatim>\<open>===\<close> exactly when they print alike; both zeros print \<^verbatim>\<open>0\<close>, and
  \<^verbatim>\<open>JSON.parse\<close> never returns \<^verbatim>\<open>NaN\<close>.
\<close>

datatype json =
    JNull
  | JBool bool
  | JNum string
  | JStr string
  | JArr "json list"
  | JObj "(string \<times> json) list"

type_synonym jsvalue = "json option"

text \<open>What an \<^verbatim>\<open>if (v)\<close>, \<^verbatim>\<open>!v\<close>, \<^verbatim>\<open>v && w\<close> or \<^verbatim>\<open>v || w\<close> tests.\<close>

fun truthy :: "jsvalue \<Rightarrow> bool" where
  "truthy None = False"
| "truthy (Some JNull) = False"
| "truthy (Some (JBool b)) = b"
| "truthy (Some (JNum n)) = (n \<noteq> ''0'')"
| "truthy (Some (JStr s)) = (s \<noteq> [])"
| "truthy (Some (JArr xs)) = True"
| "truthy (Some (JObj kvs)) = True"

text \<open>
  Reading a property \<^verbatim>\<open>v.k\<close> of a value that is not \<^verbatim>\<open>null\<close>. None of the
  property names the generator reads (\<^verbatim>\<open>id\<close>, \<^verbatim>\<open>target\<close>, \<^verbatim>\<open>properties\<close>, \<^verbatim>\<open>nodes\<close>,
  \<^verbatim>\<open>type\<close>, \<^verbatim>\<open>endpoint\<close>, \<^verbatim>\<open>method\<close>, \<^verbatim>\<open>auth_required\<close>, \<^verbatim>\<open>admin_required\<close>,
  \<^verbatim>\<open>allowed_origins\<close>, \<^verbatim>\<open>log_requests\<close>) exists on a prototype, so a read on a
  boolean, number, string or array gives \<^verbatim>\<open>undefined\<close>. A read on \<^verbatim>\<open>null\<close> throws;
  every place where the receiver can be \<^verbatim>\<open>null\<close> tests for it before calling \<open>get\<close>.
\<close>

fun get :: "json \<Rightarrow> string \<Rightarrow> jsvalue" where
  "get (JObj kvs) k = map_of kvs k"
| "get v k = None"

text \<open>
  The operator \<^verbatim>\<open>===\<close>. Arrays and objects are equal only to themselves; the two operands
  of every comparison in the generator come from different places of the document, so
  two arrays or two objects are never equal there.
\<close>

fun strictEquals :: "jsvalue \<Rightarrow> jsvalue \<Rightarrow> bool" where
  "strictEquals None w = (w = None)"
| "strictEquals (Some JNull) w = (w = Some JNull)"
| "strictEquals (Some (JBool a)) w = (w = Some (JBool a))"
| "strictEquals (Some (JNum a)) w = (w = Some (JNum a))"
| "strictEquals (Some (JStr a)) w = (w = Some (JStr a))"
| "strictEquals (Some (JArr xs)) w = False"
| "strictEquals (Some (JObj kvs)) w = False"

text \<open>\<^verbatim>\<open>node.properties.k\<close>, read where \<^verbatim>\<open>node.properties\<close> has been tested to be truthy.\<close>

definition propertyOf :: "json \<Rightarrow> string \<Rightarrow> jsvalue" where
  "propertyOf node k = (case get node ''properties'' of None \<Rightarrow> None | Some p \<Rightarrow> get p k)"

text \<open>\<^verbatim>\<open>Array.prototype.findIndex\<close>, with \<open>None\<close> for the result \<^verbatim>\<open>-1\<close>.\<close>

fun findIndex :: "('a \<Rightarrow> bool) \<Rightarrow> 'a list \<Rightarrow> nat option" where
  "findIndex P [] = None"
| "findIndex P (x # xs) = (if P x then Some 0 else map_option Suc (findIndex P xs))"

text \<open>\<^verbatim>\<open>Array.prototype.join\<close> on an array of strings.\<close>

fun join :: "string \<Rightarrow> string list \<Rightarrow> string" where
  "join sep [] = []"
| "join sep [x] = x"
| "join sep (x # y # ys) = x @ sep @ join sep (y # ys)"

section \<open>generateRouteMessage\<close>

text \<open>
  \<^verbatim>\<open>toUpperCase\<close> and \<^verbatim>\<open>toLowerCase\<close> are functions of the runtime. On a string of ASCII
  characters they map the letters \<^verbatim>\<open>a\<close> to \<^verbatim>\<open>z\<close> and \<^verbatim>\<open>A\<close> to \<^verbatim>\<open>Z\<close> onto each other and leave
  every other character; on any other string they follow the case tables of Unicode,
  which are no part of this repository and are taken as parameters.
\<close>

record runtime =
  unicodeToUpperCase :: "string \<Rightarrow> string"
  unicodeToLowerCase :: "string \<Rightarrow> string"

definition isAscii :: "string \<Rightarrow> bool" where
  "isAscii s = list_all (\<lambda>c. (of_char c :: nat) < 128) s"

definition toUpperChar :: "char \<Rightarrow> char" where
  "toUpperChar c =
     (case map_of (zip ''abcdefghijklmnopqrstuvwxyz'' ''ABCDEFGHIJKLMNOPQRSTUVWXYZ'') c of
        Some u \<Rightarrow> u
      | None \<Rightarrow> c)"

definition toLowerChar :: "char \<Rightarrow> char" where
  "toLowerChar c =
     (case map_of (zip ''ABCDEFGHIJKLMNOPQRSTUVWXYZ'' ''abcdefghijklmnopqrstuvwxyz'') c of
        Some l \<Rightarrow> l
      | None \<Rightarrow> c)"

definition toUpperCase :: "runtime \<Rightarrow> string \<Rightarrow> string" where
  "toUpperCase rt s = (if isAscii s then map toUpperChar s else unicodeToUpperCase rt s)"

definition toLowerCase :: "runtime \<Rightarrow> string \<Rightarrow> string" where
  "toLowerCase rt s = (if isAscii s then map toLowerChar s else unicodeToLowerCase rt s)"

text \<open>
  The expression \<^verbatim>\<open>routeName.charAt(0).toUpperCase() + routeName.slice(1)\<close>. JavaScript
  counts a string in UTF-16 code units. A character of one, two or three bytes is one code
  unit: \<^verbatim>\<open>charAt(0)\<close> is that character and \<^verbatim>\<open>slice(1)\<close> is what follows its bytes. A
  character of four bytes (first byte \<^verbatim>\<open>0xF0\<close> or more) is two code units: \<^verbatim>\<open>charAt(0)\<close> is
  the first of them alone, which \<^verbatim>\<open>toUpperCase\<close> leaves as it is, and \<^verbatim>\<open>slice(1)\<close> starts
  with the second, so the two join to the string as it was.
\<close>

definition isContinuationByte :: "char \<Rightarrow> bool" where
  "isContinuationByte c = (128 \<le> (of_char c :: nat) \<and> (of_char c :: nat) < 192)"

definition upperCaseFirst :: "runtime \<Rightarrow> string \<Rightarrow> string" where
  "upperCaseFirst rt routeName =
     (case routeName of
        [] \<Rightarrow> []
      | c # rest \<Rightarrow>
          if (of_char c :: nat) < 128 then toUpperCase rt [c] @ rest
          else if (of_char c :: nat) < 240
          then toUpperCase rt (c # takeWhile isContinuationByte rest)
               @ dropWhile isContinuationByte rest
          else routeName)"

definition generateRouteMessage :: "runtime \<Rightarrow> string \<Rightarrow> string" where
  "generateRouteMessage rt endpoint =
     (let routeName = (case endpoint of c # rest \<Rightarrow> if c = CHR ''/'' then rest else endpoint
                                       | [] \<Rightarrow> endpoint)
      in if routeName = ''login'' then ''Login successful''
         else if routeName = ''signup'' then ''Signup successful''
         else if routeName = ''signout'' then ''Signout successful''
         else if routeName = ''user'' then ''User data''
         else if routeName = ''admin'' then ''Admin data''
         else if routeName = ''home'' then ''Welcome to Home Page''
         else if routeName = ''about'' then ''About us''
         else if routeName = ''news'' then ''Latest news''
         else if routeName = ''blogs'' then ''Blogs list''
         else upperCaseFirst rt routeName @ '' resource'')"

section \<open>Errors\<close>

text \<open>
  \<open>Error msg\<close> is \<^verbatim>\<open>throw new Error(msg)\<close>; \<open>TypeError\<close> is the exception the runtime
  raises when a property of \<^verbatim>\<open>null\<close> or \<^verbatim>\<open>undefined\<close> is read or a value that is not a
  function is called.
\<close>

datatype error = Error string | TypeError

definition ConfigShapeError :: error where
  \<open>ConfigShapeError = Error ''Invalid configuration: "nodes" array is required''\<close>

definition MissingEntryError :: error where
  \<open>MissingEntryError = Error ''Invalid configuration: Entry node with type "entry" is required''\<close>

section \<open>validateConfig\<close>

text \<open>
  The search \<^verbatim>\<open>config.nodes.find(node => node.properties && node.properties.type === 'entry')\<close>.
  The callback reads a property of each node it visits, which throws on a \<^verbatim>\<open>null\<close> node;
  the search stops at the first entry node.
\<close>

fun findEntry :: "json list \<Rightarrow> error + jsvalue" where
  "findEntry [] = Inr None"
| "findEntry (node # rest) =
     (if node = JNull then Inl TypeError
      else if truthy (get node ''properties'')
              \<and> strictEquals (propertyOf node ''type'') (Some (JStr ''entry''))
      then Inr (Some node)
      else findEntry rest)"

definition isArray :: "jsvalue \<Rightarrow> bool" where
  "isArray v = (case v of Some (JArr xs) \<Rightarrow> True | _ \<Rightarrow> False)"

text \<open>
  Reading \<^verbatim>\<open>config.nodes\<close> throws when the document is \<^verbatim>\<open>null\<close>. After the first test
  \<^verbatim>\<open>config.nodes\<close> is an array, so the last case is never taken.
\<close>

definition validateConfig :: "json \<Rightarrow> error + unit" where
  "validateConfig config =
     (if config = JNull then Inl TypeError
      else if \<not> truthy (get config ''nodes'') \<or> \<not> isArray (get config ''nodes'')
      then Inl ConfigShapeError
      else case get config ''nodes'' of
        Some (JArr nodes) \<Rightarrow>
          (case findEntry nodes of
             Inl e \<Rightarrow> Inl e
           | Inr entryNode \<Rightarrow> if \<not> truthy entryNode then Inl MissingEntryError else Inr ())
      | _ \<Rightarrow> Inl TypeError)"

section \<open>parseNodes\<close>

record feature =
  enabled :: bool

record corsFeature = feature +
  origin :: jsvalue

record authFeature = feature +
  guarded :: "jsvalue list"

record route =
  routeId :: jsvalue
  endpoint :: jsvalue
  "method" :: jsvalue
  authRequired :: bool
  adminRequired :: bool

record parsedConfig =
  cors :: corsFeature
  auth :: authFeature
  adminAuth :: authFeature
  logging :: feature
  routes :: "route list"

text \<open>
  The field \<open>origin\<close> is \<^verbatim>\<open>cors.options.origin\<close> and \<open>guarded\<close> is the array
  \<^verbatim>\<open>routes\<close> of \<^verbatim>\<open>auth\<close> and \<^verbatim>\<open>adminAuth\<close>. The object a call of \<^verbatim>\<open>parseNodes\<close> starts from:
\<close>

definition initialResult :: parsedConfig where
  "initialResult =
     \<lparr> cors = \<lparr> enabled = False, origin = None \<rparr>,
       auth = \<lparr> enabled = False, guarded = [] \<rparr>,
       adminAuth = \<lparr> enabled = False, guarded = [] \<rparr>,
       logging = \<lparr> enabled = False \<rparr>,
       routes = [] \<rparr>"

text \<open>The body of the first \<^verbatim>\<open>forEach\<close>, for a node that is not \<^verbatim>\<open>null\<close>.\<close>

definition classifyMiddleware :: "json \<Rightarrow> parsedConfig \<Rightarrow> parsedConfig" where
  "classifyMiddleware properties result =
     (let r1 = (if truthy (get properties ''allowed_origins'')
                then result\<lparr> cors := \<lparr> enabled = True, origin = get properties ''allowed_origins'' \<rparr> \<rparr>
                else result);
          r2 = (if truthy (get properties ''auth_required'')
                then r1\<lparr> auth := (auth r1)\<lparr> enabled := True \<rparr> \<rparr>
                else r1);
          r3 = (if truthy (get properties ''admin_required'')
                then r2\<lparr> adminAuth := (adminAuth r2)\<lparr> enabled := True \<rparr> \<rparr>
                else r2)
      in if truthy (get properties ''log_requests'')
         then r3\<lparr> logging := (logging r3)\<lparr> enabled := True \<rparr> \<rparr>
         else r3)"

definition makeRoute :: "jsvalue \<Rightarrow> json \<Rightarrow> route" where
  "makeRoute ident properties =
     \<lparr> routeId = ident,
       endpoint = get properties ''endpoint'', method =
         (if truthy (get properties ''method'') then get properties ''method''
          else Some (JStr ''GET'')),
       authRequired = (\<not> strictEquals (get properties ''auth_required'') (Some (JBool False))),
       adminRequired = truthy (get properties ''admin_required'') \<rparr>"

definition classifyNode :: "json \<Rightarrow> parsedConfig \<Rightarrow> parsedConfig" where
  "classifyNode node result =
     (let ident = get node ''id'' in
      case get node ''properties'' of
        None \<Rightarrow> result
      | Some properties \<Rightarrow>
          if \<not> truthy (Some properties) then result
          else if strictEquals (get properties ''type'') (Some (JStr ''middleware''))
          then classifyMiddleware properties result
          else if truthy (get properties ''endpoint'')
          then result\<lparr> routes := routes result @ [makeRoute ident properties] \<rparr>
          else result)"

text \<open>
  The first \<^verbatim>\<open>forEach\<close>. Destructuring \<^verbatim>\<open>const { id, properties } = node\<close> throws on a
  \<^verbatim>\<open>null\<close> node and the exception leaves \<^verbatim>\<open>parseNodes\<close>.
\<close>

fun firstPass :: "json list \<Rightarrow> parsedConfig \<Rightarrow> error + parsedConfig" where
  "firstPass [] result = Inr result"
| "firstPass (node # rest) result =
     (if node = JNull then Inl TypeError else firstPass rest (classifyNode node result))"

text \<open>The body of the inner \<^verbatim>\<open>targetIds.forEach\<close> of the second pass.\<close>

definition propagateTo :: "json list \<Rightarrow> json \<Rightarrow> parsedConfig \<Rightarrow> parsedConfig" where
  "propagateTo nodes targetId result =
     (case List.find (\<lambda>n. strictEquals (get n ''id'') (Some targetId)) nodes of
        None \<Rightarrow> result
      | Some targetNode \<Rightarrow>
          if truthy (Some targetNode) \<and> truthy (get targetNode ''properties'')
             \<and> truthy (propertyOf targetNode ''endpoint'')
          then (case findIndex (\<lambda>r. strictEquals (routeId r) (Some targetId)) (routes result) of
                  None \<Rightarrow> result
                | Some routeIndex \<Rightarrow>
                    result\<lparr> routes := (routes result)
                               [routeIndex := (routes result ! routeIndex)\<lparr> adminRequired := True \<rparr>],
                            adminAuth := (adminAuth result)
                               \<lparr> guarded := guarded (adminAuth result)
                                    @ [endpoint (routes result ! routeIndex)] \<rparr> \<rparr>)
          else result)"

text \<open>\<^verbatim>\<open>Array.isArray(node.target) ? node.target : [node.target]\<close>\<close>

definition targetIdsOf :: "json \<Rightarrow> json list" where
  "targetIdsOf target = (case target of JArr ids \<Rightarrow> ids | _ \<Rightarrow> [target])"

text \<open>
  The body of the second \<^verbatim>\<open>forEach\<close>. It runs only after the first pass has read a
  property of every node, so no node is \<^verbatim>\<open>null\<close> here.
\<close>

definition propagateFrom :: "json list \<Rightarrow> json \<Rightarrow> parsedConfig \<Rightarrow> parsedConfig" where
  "propagateFrom nodes node result =
     (if truthy (get node ''properties'')
         \<and> strictEquals (propertyOf node ''type'') (Some (JStr ''middleware''))
      then (if truthy (propertyOf node ''admin_required'') \<and> truthy (get node ''target'')
            then (case get node ''target'' of
                    None \<Rightarrow> result
                  | Some target \<Rightarrow> fold (propagateTo nodes) (targetIdsOf target) result)
            else result)
      else result)"

definition parseNodes :: "json list \<Rightarrow> error + parsedConfig" where
  "parseNodes nodes =
     (case firstPass nodes initialResult of
        Inl e \<Rightarrow> Inl e
      | Inr result \<Rightarrow> Inr (fold (propagateFrom nodes) nodes result))"

section \<open>JSON.stringify\<close>

text \<open>A finite number prints as \<^verbatim>\<open>String(n)\<close>; an infinite one prints as \<^verbatim>\<open>null\<close>.\<close>

definition numberToJSON :: "string \<Rightarrow> string" where
  "numberToJSON n = (if n = ''Infinity'' \<or> n = ''-Infinity'' then ''null'' else n)"

text \<open>
  The escapes of a quoted JSON string: the quote, the backslash, the five short escapes
  and \<^verbatim>\<open>\u00XX\<close> for the other control characters.
\<close>

definition escapeChar :: "char \<Rightarrow> string" where
  "escapeChar c =
     (if c = CHR 0x22 then [CHR 0x5C, CHR 0x22]
      else if c = CHR 0x5C then [CHR 0x5C, CHR 0x5C]
      else if c = CHR 0x08 then [CHR 0x5C, CHR ''b'']
      else if c = CHR 0x09 then [CHR 0x5C, CHR ''t'']
      else if c = CHR 0x0A then [CHR 0x5C, CHR ''n'']
      else if c = CHR 0x0C then [CHR 0x5C, CHR ''f'']
      else if c = CHR 0x0D then [CHR 0x5C, CHR ''r'']
      else if (of_char c :: nat) < 32
      then [CHR 0x5C, CHR ''u'', CHR ''0'', CHR ''0'',
            ''0123456789abcdef'' ! ((of_char c :: nat) div 16),
            ''0123456789abcdef'' ! ((of_char c :: nat) mod 16)]
      else [c])"

definition quoteJSONString :: "string \<Rightarrow> string" where
  "quoteJSONString s = [CHR 0x22] @ concat (map escapeChar s) @ [CHR 0x22]"

fun stringify :: "json \<Rightarrow> string" where
  "stringify JNull = ''null''"
| "stringify (JBool b) = (if b then ''true'' else ''false'')"
| "stringify (JNum n) = numberToJSON n"
| "stringify (JStr s) = quoteJSONString s"
| "stringify (JArr xs) = ''['' @ join '','' (map stringify xs) @ '']''"
| "stringify (JObj kvs) =
     ''{'' @ join '','' (map (\<lambda>kv. quoteJSONString (fst kv) @ '':'' @ stringify (snd kv)) kvs) @ ''}''"

text \<open>
  \<^verbatim>\<open>JSON.stringify(v)\<close> spliced into a template literal: \<^verbatim>\<open>JSON.stringify(undefined)\<close> is
  \<^verbatim>\<open>undefined\<close>, which the template renders as the word.
\<close>

definition stringifyValue :: "jsvalue \<Rightarrow> string" where
  "stringifyValue v = (case v of None \<Rightarrow> ''undefined'' | Some j \<Rightarrow> stringify j)"

section \<open>generateServerCode\<close>

definition authMiddlewareText :: string where
  \<open>authMiddlewareText =
     ''const authMiddleware = (req, res, next) => {\<newline>''
   @ ''  if (!req.headers.authorization) {\<newline>''
   @ ''    return res.status(401).json({ message: "Unauthorized" });\<newline>''
   @ ''  }\<newline>''
   @ ''  next();\<newline>''
   @ ''};\<newline>\<newline>''\<close>

definition adminMiddlewareText :: string where
  \<open>adminMiddlewareText =
     ''const adminMiddleware = (req, res, next) => {\<newline>''
   @ ''  if (req.headers.authorization !== "admin") {\<newline>''
   @ ''    return res.status(403).json({ message: "Forbidden" });\<newline>''
   @ ''  }\<newline>''
   @ ''  next();\<newline>''
   @ ''};\<newline>\<newline>''\<close>

definition loggingMiddlewareText :: string where
  \<open>loggingMiddlewareText =
     ''const loggingMiddleware = (req, res, next) => {\<newline>''
   @ ''  console.log(`[${new Date().toISOString()}] ${req.method} ${req.url}`);\<newline>''
   @ ''  next();\<newline>''
   @ ''};\<newline>\<newline>''\<close>

text \<open>The line \<^verbatim>\<open>app.use(cors({ origin: ... }))\<close>, emitted when CORS is enabled.\<close>

definition corsRegistration :: "parsedConfig \<Rightarrow> string" where
  \<open>corsRegistration parsed =
     (let originText =
            (if (case origin (cors parsed) of Some (JArr xs) \<Rightarrow> JStr ''*'' \<in> set xs | _ \<Rightarrow> False)
             then ''"*"''
             else stringifyValue (origin (cors parsed)))
      in ''app.use(cors({ origin: '' @ originText @ '' }));\<newline>'')\<close>

text \<open>The array \<^verbatim>\<open>middlewares\<close> built for one route.\<close>

definition middlewaresOf :: "parsedConfig \<Rightarrow> route \<Rightarrow> string list" where
  "middlewaresOf parsed r =
     (let m1 = (if authRequired r \<and> enabled (auth parsed) then [''authMiddleware''] else []);
          m2 = (if adminRequired r \<and> enabled (adminAuth parsed)
                then m1 @ [''adminMiddleware''] else m1)
      in if enabled (logging parsed) then m2 @ [''loggingMiddleware''] else m2)"

text \<open>
  The body of \<^verbatim>\<open>routes.forEach\<close>: the text of one registration. \<^verbatim>\<open>route.method.toLowerCase()\<close>
  throws unless the method is a string, and \<^verbatim>\<open>generateRouteMessage\<close> calls
  \<^verbatim>\<open>endpoint.startsWith\<close>, which throws unless the endpoint is a string.
\<close>

definition routeCode :: "runtime \<Rightarrow> parsedConfig \<Rightarrow> route \<Rightarrow> error + string" where
  \<open>routeCode rt parsed r =
     (case method r of
        Some (JStr methodName) \<Rightarrow>
          (case endpoint r of
             Some (JStr path) \<Rightarrow>
               (let code1 = ''app.'' @ toLowerCase rt methodName @ ''("'' @ path @ ''", '';
                    middlewares = middlewaresOf parsed r;
                    code2 = (if length middlewares > 0
                             then code1 @ join '', '' middlewares @ '', '' else code1)
                in Inr (code2 @ ''(req, res) => res.json({ message: "''
                          @ generateRouteMessage rt path @ ''" }));\<newline>''))
           | _ \<Rightarrow> Inl TypeError)
      | _ \<Rightarrow> Inl TypeError)\<close>

fun emitRoutes :: "runtime \<Rightarrow> parsedConfig \<Rightarrow> route list \<Rightarrow> string \<Rightarrow> error + string" where
  "emitRoutes rt parsed [] code = Inr code"
| "emitRoutes rt parsed (r # rest) code =
     (case routeCode rt parsed r of
        Inl e \<Rightarrow> Inl e
      | Inr line \<Rightarrow> emitRoutes rt parsed rest (code @ line))"

definition generateServerCode :: "runtime \<Rightarrow> parsedConfig \<Rightarrow> error + string" where
  \<open>generateServerCode rt parsed =
     (let code1 = ''const express = require("express");\<newline>'';
          code2 = (if enabled (cors parsed)
                   then code1 @ ''const cors = require("cors");\<newline>'' else code1);
          code3 = code2 @ ''const app = express();\<newline>\<newline>'';
          code4 = (if enabled (cors parsed) then code3 @ corsRegistration parsed else code3);
          code5 = code4 @ ''app.use(express.json());\<newline>\<newline>'';
          code6 = (if enabled (auth parsed) then code5 @ authMiddlewareText else code5);
          code7 = (if enabled (adminAuth parsed) then code6 @ adminMiddlewareText else code6);
          code8 = (if enabled (logging parsed) then code7 @ loggingMiddlewareText else code7)
      in case emitRoutes rt parsed (routes parsed) code8 of
           Inl e \<Rightarrow> Inl e
         | Inr code9 \<Rightarrow>
             Inr (code9 @ ''\<newline>app.listen(3000, () => console.log("Server running on port 3000"));\<newline>''))\<close>

section \<open>generateServer\<close>

text \<open>
  \<open>config\<close> is the value of \<^verbatim>\<open>JSON.parse(fs.readFileSync(configPath, 'utf8'))\<close>; the files
  are a map from paths to contents. Every exception is caught: the message is printed
  and the process exits with status 1, which is the result \<open>Some e\<close>; \<open>None\<close> is the run
  that wrote the file. \<^verbatim>\<open>parseNodes\<close> calls \<^verbatim>\<open>nodes.forEach\<close>, which throws unless
  \<^verbatim>\<open>config.nodes\<close> is an array.
\<close>

type_synonym files = "string \<rightharpoonup> string"

definition generateServer ::
  "runtime \<Rightarrow> json \<Rightarrow> string \<Rightarrow> files \<Rightarrow> files \<times> error option" where
  "generateServer rt config outputPath files =
     (case validateConfig config of
        Inl e \<Rightarrow> (files, Some e)
      | Inr u \<Rightarrow>
          (case (case get config ''nodes'' of
                   Some (JArr nodes) \<Rightarrow> parseNodes nodes
                 | _ \<Rightarrow> Inl TypeError) of
             Inl e \<Rightarrow> (files, Some e)
           | Inr parsed \<Rightarrow>
               (case generateServerCode rt parsed of
                  Inl e \<Rightarrow> (files, Some e)
                | Inr serverCode \<Rightarrow> (files(outputPath \<mapsto> serverCode), None))))"

section \<open>Notions of the specification\<close>

text \<open>
  The specification speaks of middleware nodes, route nodes and entry nodes. These are
  the tests the generator applies to a node, written once as predicates.
\<close>

definition isMiddlewareNode :: "json \<Rightarrow> bool" where
  "isMiddlewareNode node =
     (truthy (get node ''properties'') \<and> propertyOf node ''type'' = Some (JStr ''middleware''))"

definition isEntryNode :: "json \<Rightarrow> bool" where
  "isEntryNode node =
     (truthy (get node ''properties'') \<and> propertyOf node ''type'' = Some (JStr ''entry''))"

text \<open>A node that gets a route record: truthy properties, not a middleware, truthy endpoint.\<close>

definition isRouteNode :: "json \<Rightarrow> bool" where
  "isRouteNode node =
     (truthy (get node ''properties'') \<and> propertyOf node ''type'' \<noteq> Some (JStr ''middleware'')
      \<and> truthy (propertyOf node ''endpoint''))"

text \<open>The record the first pass builds for a route node.\<close>

definition routeRecordOf :: "json \<Rightarrow> route" where
  "routeRecordOf node =
     \<lparr> routeId = get node ''id'',
       endpoint = propertyOf node ''endpoint'', method =
         (if truthy (propertyOf node ''method'') then propertyOf node ''method''
          else Some (JStr ''GET'')),
       authRequired = (propertyOf node ''auth_required'' \<noteq> Some (JBool False)),
       adminRequired = truthy (propertyOf node ''admin_required'') \<rparr>"

text \<open>A route record with its admin flag cleared: what the second pass never changes.\<close>

definition sameButAdmin :: "route \<Rightarrow> route" where
  "sameButAdmin r = r\<lparr> adminRequired := False \<rparr>"

text \<open>
  The target ids an admin middleware node propagates to: none unless the node is a
  middleware with truthy \<^verbatim>\<open>admin_required\<close> and truthy \<^verbatim>\<open>target\<close>; otherwise the elements
  of an array target, or the single target.
\<close>

definition adminTargets :: "json \<Rightarrow> json list" where
  "adminTargets node =
     (if isMiddlewareNode node \<and> truthy (propertyOf node ''admin_required'')
         \<and> truthy (get node ''target'')
      then (case get node ''target'' of
              Some (JArr ids) \<Rightarrow> ids
            | Some target \<Rightarrow> [target]
            | None \<Rightarrow> [])
      else [])"

definition targetedByAdmin :: "json list \<Rightarrow> json \<Rightarrow> bool" where
  "targetedByAdmin nodes node =
     (\<exists>m\<in>set nodes. \<exists>t\<in>set (adminTargets m). strictEquals (get node ''id'') (Some t))"

text \<open>
  The reading of the specification's words: a middleware node with truthy
  \<^verbatim>\<open>admin_required\<close> lists the id in its target, a single value or a list.
\<close>

definition claimedTargets :: "json \<Rightarrow> json list" where
  "claimedTargets node =
     (case get node ''target'' of
        Some (JArr ids) \<Rightarrow> ids
      | Some target \<Rightarrow> [target]
      | None \<Rightarrow> [])"

definition listedByAdminMiddleware :: "json list \<Rightarrow> json \<Rightarrow> bool" where
  "listedByAdminMiddleware nodes node =
     (\<exists>m\<in>set nodes. isMiddlewareNode m \<and> truthy (propertyOf m ''admin_required'')
        \<and> (\<exists>t\<in>set (claimedTargets m). strictEquals (get node ''id'') (Some t)))"

text \<open>The specification's route-bearing node: the property \<^verbatim>\<open>endpoint\<close> is present.\<close>

definition endpointPresent :: "json \<Rightarrow> bool" where
  "endpointPresent node = (propertyOf node ''endpoint'' \<noteq> None)"

text \<open>Whether the search of the second pass finds a node that is a route.\<close>

definition hits :: "json list \<Rightarrow> json \<Rightarrow> bool" where
  "hits nodes t =
     (case List.find (\<lambda>n. strictEquals (get n ''id'') (Some t)) nodes of
        None \<Rightarrow> False
      | Some targetNode \<Rightarrow>
          truthy (Some targetNode) \<and> truthy (get targetNode ''properties'')
          \<and> truthy (propertyOf targetNode ''endpoint''))"

definition markAdmin :: "json \<Rightarrow> route \<Rightarrow> route" where
  "markAdmin t r = (if strictEquals (routeId r) (Some t) then r\<lparr> adminRequired := True \<rparr> else r)"

text \<open>The array \<^verbatim>\<open>config.nodes\<close> of a document, if it is one.\<close>

definition nodesArray :: "json \<Rightarrow> json list option" where
  "nodesArray config = (case get config ''nodes'' of Some (JArr nodes) \<Rightarrow> Some nodes | _ \<Rightarrow> None)"

text \<open>
  The values of \<^verbatim>\<open>allowed_origins\<close> that the first pass records, in document order: those
  of the middleware nodes where the value is truthy. The last one is the recorded origin.
\<close>

definition originDeclarations :: "json list \<Rightarrow> json list" where
  "originDeclarations nodes =
     concat (map (\<lambda>n. if isMiddlewareNode n \<and> truthy (propertyOf n ''allowed_origins'')
                       then (case propertyOf n ''allowed_origins'' of Some v \<Rightarrow> [v] | None \<Rightarrow> [])
                       else [])
                 nodes)"

text \<open>
  The specification's rendering of an origin that is not the wildcard: a literal list of
  the declared origins, a single declared value being a list of one.
\<close>

definition claimedOriginList :: "json \<Rightarrow> string" where
  "claimedOriginList v =
     ''['' @ join '','' (map stringify (case v of JArr xs \<Rightarrow> xs | _ \<Rightarrow> [v])) @ '']''"

text \<open>A node whose \<^verbatim>\<open>properties\<close> is an object.\<close>

definition hasObjectProperties :: "json \<Rightarrow> bool" where
  "hasObjectProperties node =
     (case get node ''properties'' of Some (JObj kvs) \<Rightarrow> True | _ \<Rightarrow> False)"


subsection \<open>The sections of the emitted text\<close>

definition isText :: "jsvalue \<Rightarrow> bool" where
  "isText v = (case v of Some (JStr s) \<Rightarrow> True | _ \<Rightarrow> False)"

definition textOf :: "jsvalue \<Rightarrow> string" where
  "textOf v = (case v of Some (JStr s) \<Rightarrow> s | _ \<Rightarrow> [])"

text \<open>A model whose routes all have a string method and a string endpoint.\<close>

definition emittable :: "parsedConfig \<Rightarrow> bool" where
  "emittable parsed = list_all (\<lambda>r. isText (method r) \<and> isText (endpoint r)) (routes parsed)"

definition importsText :: "parsedConfig \<Rightarrow> string" where
  \<open>importsText parsed =
     ''const express = require("express");\<newline>''
   @ (if enabled (cors parsed) then ''const cors = require("cors");\<newline>'' else [])
   @ ''const app = express();\<newline>\<newline>''\<close>

definition corsLine :: "string \<Rightarrow> string" where
  \<open>corsLine originText = ''app.use(cors({ origin: '' @ originText @ '' }));\<newline>''\<close>

definition corsSection :: "parsedConfig \<Rightarrow> string" where
  "corsSection parsed = (if enabled (cors parsed) then corsRegistration parsed else [])"

definition bodyParserText :: string where
  "bodyParserText = ''app.use(express.json());\<newline>\<newline>''"

definition startupText :: string where
  \<open>startupText =
     ''\<newline>app.listen(3000, () => console.log("Server running on port 3000"));\<newline>''\<close>

text \<open>One registration statement: each middleware name is followed by a comma and a space.\<close>

definition registrationText :: "runtime \<Rightarrow> string \<Rightarrow> string \<Rightarrow> string list \<Rightarrow> string" where
  \<open>registrationText rt methodName path names =
     ''app.'' @ toLowerCase rt methodName @ ''("'' @ path @ ''", ''
   @ concat (map (\<lambda>name. name @ '', '') names)
   @ ''(req, res) => res.json({ message: "'' @ generateRouteMessage rt path @ ''" }));\<newline>''\<close>

text \<open>
  The middleware names of a route when authentication and admin authentication are
  switched on or off as a whole.
\<close>

definition gatedNames :: "bool \<Rightarrow> bool \<Rightarrow> parsedConfig \<Rightarrow> route \<Rightarrow> string list" where
  "gatedNames authOn adminOn parsed r =
     (if authOn \<and> authRequired r then [''authMiddleware''] else [])
   @ (if adminOn \<and> adminRequired r then [''adminMiddleware''] else [])
   @ (if enabled (logging parsed) then [''loggingMiddleware''] else [])"

definition gatedText :: "runtime \<Rightarrow> bool \<Rightarrow> bool \<Rightarrow> parsedConfig \<Rightarrow> string" where
  "gatedText rt authOn adminOn parsed =
     importsText parsed @ corsSection parsed @ bodyParserText
   @ (if authOn then authMiddlewareText else [])
   @ (if adminOn then adminMiddlewareText else [])
   @ (if enabled (logging parsed) then loggingMiddlewareText else [])
   @ concat (map (\<lambda>r. registrationText rt (textOf (method r)) (textOf (endpoint r))
                         (gatedNames authOn adminOn parsed r))
                 (routes parsed))
   @ startupText"

text \<open>
  The middleware names as the specification words them: by the flags of the record and
  \<^verbatim>\<open>logging.enabled\<close> alone.
\<close>

definition claimedNames :: "parsedConfig \<Rightarrow> route \<Rightarrow> string list" where
  "claimedNames parsed r =
     (if authRequired r then [''authMiddleware''] else [])
   @ (if adminRequired r then [''adminMiddleware''] else [])
   @ (if enabled (logging parsed) then [''loggingMiddleware''] else [])"

text \<open>The origin option is the wildcard or an array that contains it.\<close>

definition isOrContainsWildcard :: "jsvalue \<Rightarrow> bool" where
  "isOrContainsWildcard v =
     (case v of
        Some (JStr s) \<Rightarrow> s = ''*''
      | Some (JArr xs) \<Rightarrow> JStr ''*'' \<in> set xs
      | _ \<Rightarrow> False)"

subsection \<open>The message table of the specification\<close>




section \<open>Example documents\<close>

definition entryNode :: json where
  "entryNode = JObj [(''id'', JStr ''1''), (''properties'', JObj [(''type'', JStr ''entry'')])]"

definition adminGate :: json where
  "adminGate =
     JObj [(''id'', JStr ''2''), (''target'', JArr [JStr ''5'']),
           (''properties'', JObj [(''type'', JStr ''middleware''), (''admin_required'', JBool True),
                                  (''log_requests'', JBool True)])]"

definition adminRoute :: json where
  "adminRoute =
     JObj [(''id'', JStr ''5''),
           (''properties'', JObj [(''endpoint'', JStr ''/admin''), (''method'', JStr ''GET'')])]"

definition homeRoute :: json where
  "homeRoute =
     JObj [(''id'', JStr ''6''),
           (''properties'', JObj [(''endpoint'', JStr ''/home''), (''auth_required'', JBool False)])]"

text \<open>An admin middleware that targets the route \<^verbatim>\<open>/admin\<close>, and a public route.\<close>

definition scenarioNodes :: "json list" where
  "scenarioNodes = [entryNode, adminGate, adminRoute, homeRoute]"

definition scenarioParsed :: parsedConfig where
  "scenarioParsed =
     \<lparr> cors = \<lparr> enabled = False, origin = None \<rparr>,
       auth = \<lparr> enabled = False, guarded = [] \<rparr>,
       adminAuth = \<lparr> enabled = True, guarded = [Some (JStr ''/admin'')] \<rparr>,
       logging = \<lparr> enabled = True \<rparr>,
       routes = [\<lparr> routeId = Some (JStr ''5''),
                   endpoint = Some (JStr ''/admin''), method = Some (JStr ''GET''),
                   authRequired = True, adminRequired = True \<rparr>,
                 \<lparr> routeId = Some (JStr ''6''),
                   endpoint = Some (JStr ''/home''), method = Some (JStr ''GET''),
                   authRequired = False, adminRequired = False \<rparr>] \<rparr>"

definition scenarioDocument :: json where
  "scenarioDocument = JObj [(''nodes'', JArr scenarioNodes)]"

text \<open>A route that declares \<^verbatim>\<open>admin_required\<close> itself, in a document with no middleware.\<close>

definition ownAdminRoute :: json where
  "ownAdminRoute =
     JObj [(''id'', JStr ''3''),
           (''properties'', JObj [(''endpoint'', JStr ''/admin''), (''admin_required'', JBool True)])]"

definition openNodes :: "json list" where
  "openNodes = [entryNode, ownAdminRoute]"

definition openRoute :: route where
  "openRoute =
     \<lparr> routeId = Some (JStr ''3''),
       endpoint = Some (JStr ''/admin''), method = Some (JStr ''GET''),
       authRequired = True, adminRequired = True \<rparr>"

definition openParsed :: parsedConfig where
  "openParsed =
     \<lparr> cors = \<lparr> enabled = False, origin = None \<rparr>,
       auth = \<lparr> enabled = False, guarded = [] \<rparr>,
       adminAuth = \<lparr> enabled = False, guarded = [] \<rparr>,
       logging = \<lparr> enabled = False \<rparr>,
       routes = [openRoute] \<rparr>"

definition openText :: string where
  \<open>openText =
     ''const express = require("express");\<newline>''
   @ ''const app = express();\<newline>\<newline>''
   @ ''app.use(express.json());\<newline>\<newline>''
   @ ''app.get("/admin", (req, res) => res.json({ message: "Admin data" }));\<newline>''
   @ ''\<newline>app.listen(3000, () => console.log("Server running on port 3000"));\<newline>''\<close>

text \<open>A route whose method is a number.\<close>

definition numericMethodRoute :: json where
  "numericMethodRoute =
     JObj [(''id'', JStr ''4''),
           (''properties'', JObj [(''endpoint'', JStr ''/items''), (''method'', JNum ''5'')])]"

definition numericMethodNodes :: "json list" where
  "numericMethodNodes = [entryNode, numericMethodRoute]"

definition numericMethodParsed :: parsedConfig where
  "numericMethodParsed =
     \<lparr> cors = \<lparr> enabled = False, origin = None \<rparr>,
       auth = \<lparr> enabled = False, guarded = [] \<rparr>,
       adminAuth = \<lparr> enabled = False, guarded = [] \<rparr>,
       logging = \<lparr> enabled = False \<rparr>,
       routes = [\<lparr> routeId = Some (JStr ''4''),
                   endpoint = Some (JStr ''/items''), method = Some (JNum ''5''),
                   authRequired = True, adminRequired = False \<rparr>] \<rparr>"

text \<open>Two nodes with the id \<^verbatim>\<open>5\<close>: the first is no route, the second is.\<close>

definition exitNode :: json where
  "exitNode = JObj [(''id'', JStr ''5''), (''properties'', JObj [(''type'', JStr ''exit'')])]"

definition duplicateIdNodes :: "json list" where
  "duplicateIdNodes = [entryNode, exitNode, adminRoute, adminGate]"

definition duplicateIdParsed :: parsedConfig where
  "duplicateIdParsed =
     \<lparr> cors = \<lparr> enabled = False, origin = None \<rparr>,
       auth = \<lparr> enabled = False, guarded = [] \<rparr>,
       adminAuth = \<lparr> enabled = True, guarded = [] \<rparr>,
       logging = \<lparr> enabled = True \<rparr>,
       routes = [\<lparr> routeId = Some (JStr ''5''),
                   endpoint = Some (JStr ''/admin''), method = Some (JStr ''GET''),
                   authRequired = True, adminRequired = False \<rparr>] \<rparr>"

text \<open>A route whose id is the empty string, and an admin middleware that targets it.\<close>

definition emptyTargetGate :: json where
  "emptyTargetGate =
     JObj [(''id'', JStr ''2''), (''target'', JStr []),
           (''properties'', JObj [(''type'', JStr ''middleware''), (''admin_required'', JBool True)])]"

definition emptyIdRoute :: json where
  "emptyIdRoute =
     JObj [(''id'', JStr []), (''properties'', JObj [(''endpoint'', JStr ''/reports'')])]"

definition emptyIdNodes :: "json list" where
  "emptyIdNodes = [entryNode, emptyTargetGate, emptyIdRoute]"

definition emptyIdParsed :: parsedConfig where
  "emptyIdParsed =
     \<lparr> cors = \<lparr> enabled = False, origin = None \<rparr>,
       auth = \<lparr> enabled = False, guarded = [] \<rparr>,
       adminAuth = \<lparr> enabled = True, guarded = [] \<rparr>,
       logging = \<lparr> enabled = False \<rparr>,
       routes = [\<lparr> routeId = Some (JStr []),
                   endpoint = Some (JStr ''/reports''), method = Some (JStr ''GET''),
                   authRequired = True, adminRequired = False \<rparr>] \<rparr>"

text \<open>A node of type \<^verbatim>\<open>middleware\<close> that carries an endpoint.\<close>

definition typedRoute :: json where
  "typedRoute =
     JObj [(''id'', JStr ''2''),
           (''properties'', JObj [(''type'', JStr ''middleware''), (''endpoint'', JStr ''/metrics'')])]"

definition typedNodes :: "json list" where
  "typedNodes = [entryNode, typedRoute]"

text \<open>Documents with a \<^verbatim>\<open>null\<close> among the nodes.\<close>

definition nullAfterEntry :: "json list" where
  "nullAfterEntry = [entryNode, JNull]"

definition nullOnlyDocument :: json where
  "nullOnlyDocument = JObj [(''nodes'', JArr [JNull])]"

text \<open>
  Nodes with anomalies: no properties, properties that are no object, a node that is a
  number, a repeated id, and a target that names no node.
\<close>

definition bareNode :: json where
  "bareNode = JObj [(''id'', JStr ''5'')]"

definition oopsNode :: json where
  "oopsNode = JObj [(''id'', JStr ''5''), (''properties'', JStr ''oops'')]"

definition danglingGate :: json where
  "danglingGate =
     JObj [(''id'', JStr ''2''), (''target'', JStr ''99''),
           (''properties'', JObj [(''type'', JStr ''middleware''), (''admin_required'', JBool True)])]"

definition anomalousNodes :: "json list" where
  "anomalousNodes =
     [entryNode, bareNode, oopsNode, JNum ''7'',
      danglingGate]"

definition anomalousParsed :: parsedConfig where
  "anomalousParsed =
     \<lparr> cors = \<lparr> enabled = False, origin = None \<rparr>,
       auth = \<lparr> enabled = False, guarded = [] \<rparr>,
       adminAuth = \<lparr> enabled = True, guarded = [] \<rparr>,
       logging = \<lparr> enabled = False \<rparr>,
       routes = [] \<rparr>"

text \<open>
  A runtime for the examples: it knows the upper case of \<^verbatim>\<open>U+00E9\<close> (the bytes C3 A9), which
  is \<^verbatim>\<open>U+00C9\<close> (the bytes C3 89), and leaves every other text that is not ASCII.
\<close>

definition exampleRuntime :: runtime where
  "exampleRuntime =
     \<lparr> unicodeToUpperCase = (\<lambda>s. if s = [CHR 0xC3, CHR 0xA9] then [CHR 0xC3, CHR 0x89] else s),
       unicodeToLowerCase = (\<lambda>s. s) \<rparr>"

text \<open>Documents that declare origins: the wildcard in a list, two origins, and a string.\<close>

definition wildcardGate :: json where
  "wildcardGate =
     JObj [(''id'', JStr ''2''),
           (''properties'', JObj [(''type'', JStr ''middleware''),
                                  (''allowed_origins'', JArr [JStr ''*''])])]"

definition wildcardNodes :: "json list" where
  "wildcardNodes = [entryNode, wildcardGate]"

definition twoOriginsGate :: json where
  "twoOriginsGate =
     JObj [(''id'', JStr ''2''),
           (''properties'', JObj [(''type'', JStr ''middleware''),
                                  (''allowed_origins'',
                                   JArr [JStr ''https://a.example'', JStr ''https://b.example''])])]"

definition twoOriginsNodes :: "json list" where
  "twoOriginsNodes = [entryNode, twoOriginsGate]"

definition stringOriginGate :: json where
  "stringOriginGate =
     JObj [(''id'', JStr ''2''),
           (''properties'', JObj [(''type'', JStr ''middleware''),
                                  (''allowed_origins'', JStr ''https://a.example'')])]"

definition stringOriginNodes :: "json list" where
  "stringOriginNodes = [entryNode, stringOriginGate]"

definition stringOriginParsed :: parsedConfig where
  "stringOriginParsed =
     initialResult\<lparr> cors := \<lparr> enabled = True, origin = Some (JStr ''https://a.example'') \<rparr> \<rparr>"

definition stringOriginText :: string where
  \<open>stringOriginText =
     ''const express = require("express");\<newline>''
   @ ''const cors = require("cors");\<newline>''
   @ ''const app = express();\<newline>\<newline>''
   @ ''app.use(cors({ origin: "https://a.example" }));\<newline>''
   @ ''app.use(express.json());\<newline>\<newline>''
   @ ''\<newline>app.listen(3000, () => console.log("Server running on port 3000"));\<newline>''\<close>

text \<open>Two routes with the id \<^verbatim>\<open>5\<close>, and a route whose endpoint is a number.\<close>

definition twinRoute :: json where
  "twinRoute =
     JObj [(''id'', JStr ''5''), (''properties'', JObj [(''endpoint'', JStr ''/other'')])]"

definition twinNodes :: "json list" where
  "twinNodes = [entryNode, adminRoute, twinRoute]"

definition twinParsed :: parsedConfig where
  "twinParsed =
     \<lparr> cors = \<lparr> enabled = False, origin = None \<rparr>,
       auth = \<lparr> enabled = False, guarded = [] \<rparr>,
       adminAuth = \<lparr> enabled = False, guarded = [] \<rparr>,
       logging = \<lparr> enabled = False \<rparr>,
       routes = [\<lparr> routeId = Some (JStr ''5''),
                   endpoint = Some (JStr ''/admin''), method = Some (JStr ''GET''),
                   authRequired = True, adminRequired = False \<rparr>,
                 \<lparr> routeId = Some (JStr ''5''),
                   endpoint = Some (JStr ''/other''), method = Some (JStr ''GET''),
                   authRequired = True, adminRequired = False \<rparr>] \<rparr>"

definition numericEndpointRoute :: json where
  "numericEndpointRoute =
     JObj [(''id'', JStr ''4''), (''properties'', JObj [(''endpoint'', JNum ''5'')])]"

definition numericEndpointNodes :: "json list" where
  "numericEndpointNodes = [entryNode, numericEndpointRoute]"

definition numericEndpointParsed :: parsedConfig where
  "numericEndpointParsed =
     \<lparr> cors = \<lparr> enabled = False, origin = None \<rparr>,
       auth = \<lparr> enabled = False, guarded = [] \<rparr>,
       adminAuth = \<lparr> enabled = False, guarded = [] \<rparr>,
       logging = \<lparr> enabled = False \<rparr>,
       routes = [\<lparr> routeId = Some (JStr ''4''),
                   endpoint = Some (JNum ''5''), method = Some (JStr ''GET''),
                   authRequired = True, adminRequired = False \<rparr>] \<rparr>"




text \<open>Models with CORS enabled: the wildcard in a list, and two declared origins.\<close>

definition wildcardParsed :: parsedConfig where
  "wildcardParsed = initialResult\<lparr> cors := \<lparr> enabled = True, origin = Some (JArr [JStr ''*'']) \<rparr> \<rparr>"

definition twoOrigins :: "string list" where
  "twoOrigins = [''https://a.example'', ''https://b.example'']"

definition twoOriginsParsed :: parsedConfig where
  "twoOriginsParsed =
     initialResult\<lparr> cors := \<lparr> enabled = True, origin = Some (JArr (map JStr twoOrigins)) \<rparr> \<rparr>"

text \<open>Documents that fail validation: no \<^verbatim>\<open>nodes\<close> field, and no entry node.\<close>

definition shapelessDocument :: json where
  "shapelessDocument = JObj [(''links'', JArr [])]"

definition routeOnlyDocument :: json where
  "routeOnlyDocument = JObj [(''nodes'', JArr [homeRoute])]"

text \<open>The texts generated for the example models.\<close>

definition scenarioText :: string where
  \<open>scenarioText =
     ''const express = require("express");\<newline>''
   @ ''const app = express();\<newline>\<newline>''
   @ ''app.use(express.json());\<newline>\<newline>''
   @ adminMiddlewareText
   @ loggingMiddlewareText
   @ ''app.get("/admin", adminMiddleware, loggingMiddleware, ''
   @ ''(req, res) => res.json({ message: "Admin data" }));\<newline>''
   @ ''app.get("/home", loggingMiddleware, ''
   @ ''(req, res) => res.json({ message: "Welcome to Home Page" }));\<newline>''
   @ ''\<newline>app.listen(3000, () => console.log("Server running on port 3000"));\<newline>''\<close>

definition wildcardText :: string where
  \<open>wildcardText =
     ''const express = require("express");\<newline>''
   @ ''const cors = require("cors");\<newline>''
   @ ''const app = express();\<newline>\<newline>''
   @ ''app.use(cors({ origin: "*" }));\<newline>''
   @ ''app.use(express.json());\<newline>\<newline>''
   @ ''\<newline>app.listen(3000, () => console.log("Server running on port 3000"));\<newline>''\<close>

definition twoOriginsText :: string where
  \<open>twoOriginsText =
     ''const express = require("express");\<newline>''
   @ ''const cors = require("cors");\<newline>''
   @ ''const app = express();\<newline>\<newline>''
   @ ''app.use(cors({ origin: ["https://a.example","https://b.example"] }));\<newline>''
   @ ''app.use(express.json());\<newline>\<newline>''
   @ ''\<newline>app.listen(3000, () => console.log("Server running on port 3000"));\<newline>''\<close>


section \<open>Lemmas about the first pass\<close>

lemma strictEquals_eq: "strictEquals v w \<Longrightarrow> v = w"
  by (cases "(v, w)" rule: strictEquals.cases) auto

lemma strictEquals_JStr [simp]: "strictEquals v (Some (JStr s)) = (v = Some (JStr s))"
  by (cases "(v, Some (JStr s))" rule: strictEquals.cases) auto

lemma strictEquals_JBool [simp]: "strictEquals v (Some (JBool b)) = (v = Some (JBool b))"
  by (cases "(v, Some (JBool b))" rule: strictEquals.cases) auto

lemma firstPass_fold:
  "firstPass nodes result =
     (if JNull \<in> set nodes then Inl TypeError else Inr (fold classifyNode nodes result))"
  by (induction nodes arbitrary: result) auto

lemma routes_classifyMiddleware [simp]: "routes (classifyMiddleware p result) = routes result"
  by (simp add: classifyMiddleware_def Let_def)

lemma guarded_classifyMiddleware [simp]:
  "guarded (adminAuth (classifyMiddleware p result)) = guarded (adminAuth result)"
  by (simp add: classifyMiddleware_def Let_def)

lemma adminEnabled_classifyMiddleware [simp]:
  "enabled (adminAuth (classifyMiddleware p result))
     = (enabled (adminAuth result) \<or> truthy (get p ''admin_required''))"
  by (simp add: classifyMiddleware_def Let_def)

lemma authEnabled_classifyMiddleware [simp]:
  "enabled (auth (classifyMiddleware p result))
     = (enabled (auth result) \<or> truthy (get p ''auth_required''))"
  by (simp add: classifyMiddleware_def Let_def)

lemma loggingEnabled_classifyMiddleware [simp]:
  "enabled (logging (classifyMiddleware p result))
     = (enabled (logging result) \<or> truthy (get p ''log_requests''))"
  by (simp add: classifyMiddleware_def Let_def)

lemma routes_classifyNode:
  "routes (classifyNode node result)
     = routes result @ (if isRouteNode node then [routeRecordOf node] else [])"
  by (auto simp: classifyNode_def isRouteNode_def routeRecordOf_def makeRoute_def propertyOf_def
           split: option.splits)

lemma guarded_classifyNode [simp]:
  "guarded (adminAuth (classifyNode node result)) = guarded (adminAuth result)"
  by (auto simp: classifyNode_def split: option.splits)

lemma adminEnabled_classifyNode:
  "enabled (adminAuth (classifyNode node result))
     = (enabled (adminAuth result)
        \<or> isMiddlewareNode node \<and> truthy (propertyOf node ''admin_required''))"
  by (auto simp: classifyNode_def isMiddlewareNode_def propertyOf_def split: option.splits)

lemma authEnabled_classifyNode:
  "enabled (auth (classifyNode node result))
     = (enabled (auth result)
        \<or> isMiddlewareNode node \<and> truthy (propertyOf node ''auth_required''))"
  by (auto simp: classifyNode_def isMiddlewareNode_def propertyOf_def split: option.splits)

lemma loggingEnabled_classifyNode:
  "enabled (logging (classifyNode node result))
     = (enabled (logging result)
        \<or> isMiddlewareNode node \<and> truthy (propertyOf node ''log_requests''))"
  by (auto simp: classifyNode_def isMiddlewareNode_def propertyOf_def split: option.splits)

lemma routes_fold_classifyNode:
  "routes (fold classifyNode nodes result)
     = routes result @ map routeRecordOf (filter isRouteNode nodes)"
  by (induction nodes arbitrary: result) (auto simp: routes_classifyNode)

lemma guarded_fold_classifyNode [simp]:
  "guarded (adminAuth (fold classifyNode nodes result)) = guarded (adminAuth result)"
  by (induction nodes arbitrary: result) auto

lemma adminEnabled_fold_classifyNode:
  "enabled (adminAuth (fold classifyNode nodes result))
     = (enabled (adminAuth result)
        \<or> (\<exists>n\<in>set nodes. isMiddlewareNode n \<and> truthy (propertyOf n ''admin_required'')))"
  by (induction nodes arbitrary: result) (auto simp: adminEnabled_classifyNode)

lemma authEnabled_fold_classifyNode:
  "enabled (auth (fold classifyNode nodes result))
     = (enabled (auth result)
        \<or> (\<exists>n\<in>set nodes. isMiddlewareNode n \<and> truthy (propertyOf n ''auth_required'')))"
  by (induction nodes arbitrary: result) (auto simp: authEnabled_classifyNode)

lemma loggingEnabled_fold_classifyNode:
  "enabled (logging (fold classifyNode nodes result))
     = (enabled (logging result)
        \<or> (\<exists>n\<in>set nodes. isMiddlewareNode n \<and> truthy (propertyOf n ''log_requests'')))"
  by (induction nodes arbitrary: result) (auto simp: loggingEnabled_classifyNode)

lemma map_update_same:
  "i < length xs \<Longrightarrow> f y = f (xs ! i) \<Longrightarrow> map f (xs[i := y]) = map f xs"
  by (simp add: map_update list_update_same_conv)

lemma findIndex_Some: "findIndex P xs = Some i \<Longrightarrow> i < length xs \<and> P (xs ! i)"
  by (induction xs arbitrary: i) (auto split: if_splits)

lemma propagateTo_frame:
  "cors (propagateTo nodes t result) = cors result"
  "auth (propagateTo nodes t result) = auth result"
  "logging (propagateTo nodes t result) = logging result"
  "enabled (adminAuth (propagateTo nodes t result)) = enabled (adminAuth result)"
  by (auto simp: propagateTo_def split: option.splits)

lemma propagateTo_routes_frame:
  "map sameButAdmin (routes (propagateTo nodes t result)) = map sameButAdmin (routes result)"
  by (auto simp: propagateTo_def sameButAdmin_def map_update_same dest!: findIndex_Some
           split: option.splits)

lemma fold_propagateTo_frame:
  "cors (fold (propagateTo nodes) ts result) = cors result"
  "auth (fold (propagateTo nodes) ts result) = auth result"
  "logging (fold (propagateTo nodes) ts result) = logging result"
  "enabled (adminAuth (fold (propagateTo nodes) ts result)) = enabled (adminAuth result)"
  "map sameButAdmin (routes (fold (propagateTo nodes) ts result)) = map sameButAdmin (routes result)"
  by (induction ts arbitrary: result) (auto simp: propagateTo_frame propagateTo_routes_frame)

lemma propagateFrom_frame:
  "cors (propagateFrom nodes n result) = cors result"
  "auth (propagateFrom nodes n result) = auth result"
  "logging (propagateFrom nodes n result) = logging result"
  "enabled (adminAuth (propagateFrom nodes n result)) = enabled (adminAuth result)"
  "map sameButAdmin (routes (propagateFrom nodes n result)) = map sameButAdmin (routes result)"
  by (auto simp: propagateFrom_def fold_propagateTo_frame split: option.splits)

lemma fold_propagateFrom_frame:
  "cors (fold (propagateFrom nodes) ns result) = cors result"
  "auth (fold (propagateFrom nodes) ns result) = auth result"
  "logging (fold (propagateFrom nodes) ns result) = logging result"
  "enabled (adminAuth (fold (propagateFrom nodes) ns result)) = enabled (adminAuth result)"
  "map sameButAdmin (routes (fold (propagateFrom nodes) ns result)) = map sameButAdmin (routes result)"
  by (induction ns arbitrary: result) (auto simp: propagateFrom_frame)

lemma parseNodes_Inr:
  "parseNodes nodes = Inr parsed \<longleftrightarrow>
     JNull \<notin> set nodes
     \<and> parsed = fold (propagateFrom nodes) nodes (fold classifyNode nodes initialResult)"
  by (auto simp: parseNodes_def firstPass_fold)

lemma parseNodes_routes_frame:
  assumes "parseNodes nodes = Inr parsed"
  shows "map sameButAdmin (routes parsed)
           = map (sameButAdmin \<circ> routeRecordOf) (filter isRouteNode nodes)"
  using assms
  by (simp add: parseNodes_Inr fold_propagateFrom_frame routes_fold_classifyNode initialResult_def)

section \<open>Lemmas about the second pass\<close>

lemma propagateFrom_adminTargets:
  "propagateFrom nodes node result = fold (propagateTo nodes) (adminTargets node) result"
  by (auto simp: propagateFrom_def adminTargets_def isMiddlewareNode_def targetIdsOf_def
           split: option.splits json.splits)

lemma fold_propagateFrom_adminTargets:
  "fold (propagateFrom nodes) ns result
     = fold (propagateTo nodes) (concat (map adminTargets ns)) result"
  by (induction ns arbitrary: result) (auto simp: propagateFrom_adminTargets)

lemma findIndex_unique_update:
  assumes "distinct (map f xs)" and "\<And>x y. P x \<Longrightarrow> P y \<Longrightarrow> f x = f y"
  shows "(case findIndex P xs of None \<Rightarrow> xs | Some i \<Rightarrow> xs[i := g (xs ! i)])
           = map (\<lambda>x. if P x then g x else x) xs"
  using assms(1)
proof (induction xs)
  case Nil
  then show ?case by simp
next
  case (Cons x xs)
  show ?case
  proof (cases "P x")
    case True
    have "\<not> P y" if "y \<in> set xs" for y
    proof
      assume "P y"
      then have "f y = f x" using True assms(2) by blast
      with that Cons.prems show False by (auto simp: image_iff)
    qed
    then have "map (\<lambda>x. if P x then g x else x) xs = xs"
      by (simp add: map_idI)
    with True show ?thesis by simp
  next
    case False
    with Cons show ?thesis by (auto split: option.splits)
  qed
qed

lemma routes_propagateTo:
  assumes "distinct (map routeId (routes result))"
  shows "routes (propagateTo nodes t result)
           = (if hits nodes t then map (markAdmin t) (routes result) else routes result)"
proof -
  have u: "(case findIndex (\<lambda>r. strictEquals (routeId r) (Some t)) (routes result) of
              None \<Rightarrow> routes result
            | Some i \<Rightarrow> (routes result)[i := (routes result ! i)\<lparr> adminRequired := True \<rparr>])
           = map (markAdmin t) (routes result)"
    unfolding markAdmin_def
    by (rule findIndex_unique_update [OF assms, where g = "\<lambda>r. r\<lparr> adminRequired := True \<rparr>"])
       (metis strictEquals_eq)
  show ?thesis
    using u by (auto simp: propagateTo_def hits_def split: option.splits)
qed

lemma routeId_markAdmin [simp]: "routeId (markAdmin t r) = routeId r"
  by (simp add: markAdmin_def)

lemma adminRequired_markAdmin [simp]:
  "adminRequired (markAdmin t r) = (adminRequired r \<or> strictEquals (routeId r) (Some t))"
  by (simp add: markAdmin_def)

lemma adminRequired_fold_propagateTo:
  assumes "distinct (map routeId (routes result))"
  shows "map adminRequired (routes (fold (propagateTo nodes) ts result))
           = map (\<lambda>r. adminRequired r
                      \<or> (\<exists>t\<in>set ts. hits nodes t \<and> strictEquals (routeId r) (Some t)))
                 (routes result)
         \<and> map routeId (routes (fold (propagateTo nodes) ts result)) = map routeId (routes result)"
  using assms
proof (induction ts arbitrary: result)
  case Nil
  then show ?case by simp
next
  case (Cons t ts)
  let ?r = "propagateTo nodes t result"
  have ids: "map routeId (routes ?r) = map routeId (routes result)"
    using Cons.prems by (simp add: routes_propagateTo o_def)
  then have d: "distinct (map routeId (routes ?r))" using Cons.prems by simp
  show ?case
    using Cons.IH [OF d] ids Cons.prems
    by (auto simp: routes_propagateTo o_def)
qed

lemma map_pair_zip: "map (\<lambda>x. (f x, g x)) xs = zip (map f xs) (map g xs)"
  by (induction xs) simp_all

lemma map_pair:
  "map f xs = map f' ys \<Longrightarrow> map g xs = map g' ys
     \<Longrightarrow> map (\<lambda>x. (f x, g x)) xs = map (\<lambda>y. (f' y, g' y)) ys"
  by (simp only: map_pair_zip)

lemma frame_proj:
  assumes "map sameButAdmin xs = map sameButAdmin ys" and "\<And>r. f (sameButAdmin r) = f r"
  shows "map f xs = map f ys"
proof -
  have "map f xs = map f (map sameButAdmin xs)"
    by (simp add: o_def assms(2))
  also have "\<dots> = map f (map sameButAdmin ys)"
    by (simp only: assms(1))
  also have "\<dots> = map f ys"
    by (simp add: o_def assms(2))
  finally show ?thesis .
qed

lemma find_unique:
  assumes "x \<in> set xs" and "P x" and "\<And>y. y \<in> set xs \<Longrightarrow> P y \<Longrightarrow> y = x"
  shows "List.find P xs = Some x"
proof -
  have "List.find P xs \<noteq> None"
    using assms(1,2) by (simp add: find_None_iff) blast
  then obtain y where y: "List.find P xs = Some y" by blast
  then obtain i where "i < length xs" "P (xs ! i)" "y = xs ! i"
    unfolding find_Some_iff by blast
  then have "y \<in> set xs" "P y" by simp_all
  then have "y = x" by (rule assms(3))
  with y show ?thesis by simp
qed

lemma truthy_get_receiver: "truthy (get v k) \<Longrightarrow> truthy (Some v)"
  by (cases v) auto

lemma hits_route_node:
  assumes "distinct (map (\<lambda>n. get n ''id'') nodes)" and "node \<in> set nodes"
    and "isRouteNode node" and "strictEquals (get node ''id'') (Some t)"
  shows "hits nodes t"
proof -
  have "List.find (\<lambda>n. strictEquals (get n ''id'') (Some t)) nodes = Some node"
  proof (rule find_unique [where P = "\<lambda>n. strictEquals (get n ''id'') (Some t)", OF assms(2,4)])
    fix y assume "y \<in> set nodes" and "strictEquals (get y ''id'') (Some t)"
    then have "get y ''id'' = get node ''id''"
      using assms(4) by (metis strictEquals_eq)
    with \<open>y \<in> set nodes\<close> assms(1,2) show "y = node"
      by (meson distinct_map inj_onD)
  qed
  with assms(3) show ?thesis
    by (auto simp: hits_def isRouteNode_def dest: truthy_get_receiver)
qed

lemma fold_classifyNode_routes_initial:
  "routes (fold classifyNode nodes initialResult) = map routeRecordOf (filter isRouteNode nodes)"
  by (simp add: routes_fold_classifyNode initialResult_def)

lemma routeId_routeRecordOf [simp]: "routeId (routeRecordOf n) = get n ''id''"
  by (simp add: routeRecordOf_def)

lemma adminRequired_routeRecordOf [simp]:
  "adminRequired (routeRecordOf n) = truthy (propertyOf n ''admin_required'')"
  by (simp add: routeRecordOf_def)

lemma endpoint_routeRecordOf [simp]: "endpoint (routeRecordOf n) = propertyOf n ''endpoint''"
  by (simp add: routeRecordOf_def)

lemma distinct_route_ids:
  "distinct (map (\<lambda>n. get n ''id'') nodes)
     \<Longrightarrow> distinct (map routeId (map routeRecordOf (filter isRouteNode nodes)))"
proof -
  have "routeId \<circ> routeRecordOf = (\<lambda>n. get n ''id'')"
    by (simp add: fun_eq_iff)
  then show "distinct (map (\<lambda>n. get n ''id'') nodes)
     \<Longrightarrow> distinct (map routeId (map routeRecordOf (filter isRouteNode nodes)))"
    by (simp add: distinct_map_filter)
qed

lemma parseNodes_adminRequired:
  assumes "parseNodes nodes = Inr parsed" and "distinct (map (\<lambda>n. get n ''id'') nodes)"
  shows "map (\<lambda>r. (routeId r, adminRequired r)) (routes parsed)
           = map (\<lambda>n. (get n ''id'',
                        truthy (propertyOf n ''admin_required'') \<or> targetedByAdmin nodes n))
                 (filter isRouteNode nodes)"
proof -
  let ?r1 = "fold classifyNode nodes initialResult"
  define ts where "ts = concat (map adminTargets nodes)"
  have parsed: "parsed = fold (propagateTo nodes) ts ?r1"
    using assms(1) by (simp add: parseNodes_Inr fold_propagateFrom_adminTargets ts_def)
  have d: "distinct (map routeId (routes ?r1))"
    unfolding fold_classifyNode_routes_initial by (rule distinct_route_ids [OF assms(2)])
  note c = adminRequired_fold_propagateTo [OF d, of nodes ts, folded parsed]
  have targeted: "targetedByAdmin nodes n = (\<exists>t\<in>set ts. strictEquals (get n ''id'') (Some t))"
    for n
    by (auto simp: targetedByAdmin_def ts_def)
  have hit: "(\<exists>t\<in>set ts. hits nodes t \<and> strictEquals (get n ''id'') (Some t))
               = targetedByAdmin nodes n"
    if "n \<in> set nodes" "isRouteNode n" for n
    unfolding targeted using hits_route_node [OF assms(2) that] by blast
  have "map (\<lambda>r. adminRequired r
                  \<or> (\<exists>t\<in>set ts. hits nodes t \<and> strictEquals (routeId r) (Some t)))
            (routes ?r1)
          = map (\<lambda>n. truthy (propertyOf n ''admin_required'') \<or> targetedByAdmin nodes n)
                (filter isRouteNode nodes)"
    unfolding fold_classifyNode_routes_initial map_map
    by (rule map_cong) (simp_all add: hit)
  with c have flags: "map adminRequired (routes parsed)
          = map (\<lambda>n. truthy (propertyOf n ''admin_required'') \<or> targetedByAdmin nodes n)
                (filter isRouteNode nodes)"
    by simp
  have "map routeId (routes ?r1) = map (\<lambda>n. get n ''id'') (filter isRouteNode nodes)"
    unfolding fold_classifyNode_routes_initial map_map
    by (rule map_cong) simp_all
  with c have ids: "map routeId (routes parsed) = map (\<lambda>n. get n ''id'') (filter isRouteNode nodes)"
    by simp
  show ?thesis
    by (rule map_pair [OF ids flags])
qed

lemma guarded_propagateTo_mono:
  "set (guarded (adminAuth result)) \<subseteq> set (guarded (adminAuth (propagateTo nodes t result)))"
  by (auto simp: propagateTo_def split: option.splits)

lemma guarded_fold_propagateTo_mono:
  "set (guarded (adminAuth result)) \<subseteq> set (guarded (adminAuth (fold (propagateTo nodes) ts result)))"
proof (induction ts arbitrary: result)
  case Nil
  then show ?case by simp
next
  case (Cons t ts)
  show ?case using Cons.IH [of "propagateTo nodes t result"] guarded_propagateTo_mono [of result nodes t]
    by auto
qed

lemma findIndex_None: "findIndex P xs = None \<Longrightarrow> x \<in> set xs \<Longrightarrow> \<not> P x"
  by (induction xs) (auto split: if_splits)

lemma guarded_propagateTo_hit:
  assumes "hits nodes t" and "distinct (map routeId (routes result))"
    and "x \<in> set (routes result)" and "strictEquals (routeId x) (Some t)"
  shows "endpoint x \<in> set (guarded (adminAuth (propagateTo nodes t result)))"
proof (cases "findIndex (\<lambda>r. strictEquals (routeId r) (Some t)) (routes result)")
  case None
  with assms(3,4) show ?thesis by (auto dest: findIndex_None)
next
  case (Some i)
  then have i: "i < length (routes result)" "strictEquals (routeId (routes result ! i)) (Some t)"
    by (auto dest: findIndex_Some)
  then have "routeId (routes result ! i) = routeId x"
    using assms(4) by (metis strictEquals_eq)
  moreover have "routes result ! i \<in> set (routes result)" using i by simp
  ultimately have "routes result ! i = x"
    using assms(2,3) by (meson distinct_map inj_onD)
  with Some assms(1) show ?thesis
    by (auto simp: propagateTo_def hits_def split: option.splits)
qed

lemma guarded_fold_propagateTo_hit:
  assumes "t \<in> set ts" and "hits nodes t" and "distinct (map routeId (routes result))"
    and "(i, e) \<in> set (map (\<lambda>r. (routeId r, endpoint r)) (routes result))"
    and "strictEquals i (Some t)"
  shows "e \<in> set (guarded (adminAuth (fold (propagateTo nodes) ts result)))"
  using assms(1,3,4)
proof (induction ts arbitrary: result)
  case Nil
  then show ?case by simp
next
  case (Cons u us)
  let ?r = "propagateTo nodes u result"
  have same: "map sameButAdmin (routes ?r) = map sameButAdmin (routes result)"
    by (rule propagateTo_routes_frame)
  have pairs: "map (\<lambda>r. (routeId r, endpoint r)) (routes ?r) = map (\<lambda>r. (routeId r, endpoint r)) (routes result)"
    by (rule frame_proj [OF same]) (simp add: sameButAdmin_def)
  have ids: "map routeId (routes ?r) = map routeId (routes result)"
    by (rule frame_proj [OF same]) (simp add: sameButAdmin_def)
  show ?case
  proof (cases "t = u")
    case True
    obtain x where x: "x \<in> set (routes result)" "routeId x = i" "endpoint x = e"
      using Cons.prems(3) by auto
    have "e \<in> set (guarded (adminAuth ?r))"
      using guarded_propagateTo_hit [OF assms(2) [unfolded True] Cons.prems(2) x(1)] x assms(5) True
      by simp
    then show ?thesis
      using guarded_fold_propagateTo_mono [of ?r nodes us] by auto
  next
    case False
    with Cons.prems(1) have "t \<in> set us" by simp
    moreover have "distinct (map routeId (routes ?r))" using ids Cons.prems(2) by simp
    moreover have "(i, e) \<in> set (map (\<lambda>r. (routeId r, endpoint r)) (routes ?r))"
      using pairs Cons.prems(3) by simp
    ultimately show ?thesis using Cons.IH by simp
  qed
qed

lemma parseNodes_guarded:
  assumes "parseNodes nodes = Inr parsed" and "distinct (map (\<lambda>n. get n ''id'') nodes)"
    and "n \<in> set nodes" and "isRouteNode n" and "targetedByAdmin nodes n"
  shows "propertyOf n ''endpoint'' \<in> set (guarded (adminAuth parsed))"
proof -
  let ?r1 = "fold classifyNode nodes initialResult"
  define ts where "ts = concat (map adminTargets nodes)"
  have parsed: "parsed = fold (propagateTo nodes) ts ?r1"
    using assms(1) by (simp add: parseNodes_Inr fold_propagateFrom_adminTargets ts_def)
  have d: "distinct (map routeId (routes ?r1))"
    unfolding fold_classifyNode_routes_initial by (rule distinct_route_ids [OF assms(2)])
  obtain t where t: "t \<in> set ts" "strictEquals (get n ''id'') (Some t)"
    using assms(5) by (auto simp: targetedByAdmin_def ts_def)
  have h: "hits nodes t" by (rule hits_route_node [OF assms(2,3,4) t(2)])
  have "(routeId (routeRecordOf n), endpoint (routeRecordOf n))
             \<in> (\<lambda>r. (routeId r, endpoint r)) ` routeRecordOf ` set (filter isRouteNode nodes)"
    using assms(3,4) by (intro imageI) simp
  then have m: "(get n ''id'', propertyOf n ''endpoint'')
             \<in> set (map (\<lambda>r. (routeId r, endpoint r)) (routes ?r1))"
    unfolding fold_classifyNode_routes_initial by (simp add: image_image)
  show ?thesis
    unfolding parsed by (rule guarded_fold_propagateTo_hit [OF t(1) h d m t(2)])
qed

section \<open>Lemmas about the emitted text\<close>

lemma join_then_sep: "xs \<noteq> [] \<Longrightarrow> join sep xs @ sep = concat (map (\<lambda>x. x @ sep) xs)"
  by (induction sep xs rule: join.induct) simp_all

lemma middlewaresOf_gated:
  "middlewaresOf parsed r = gatedNames (enabled (auth parsed)) (enabled (adminAuth parsed)) parsed r"
  by (simp add: middlewaresOf_def gatedNames_def Let_def)

lemma routeCode_text:
  assumes "isText (method r)" and "isText (endpoint r)"
  shows "routeCode rt parsed r
           = Inr (registrationText rt (textOf (method r)) (textOf (endpoint r)) (middlewaresOf parsed r))"
proof -
  obtain m p where mp: "method r = Some (JStr m)" "endpoint r = Some (JStr p)"
    using assms by (auto simp: isText_def split: option.splits json.splits)
  show ?thesis
  proof (cases "middlewaresOf parsed r = []")
    case True
    then show ?thesis
      by (simp add: routeCode_def mp textOf_def registrationText_def Let_def)
  next
    case False
    then show ?thesis
      using join_then_sep [OF False, of "'', ''"]
      by (simp add: routeCode_def mp textOf_def registrationText_def Let_def)
  qed
qed

lemma routeCode_error:
  "\<not> (isText (method r) \<and> isText (endpoint r)) \<Longrightarrow> routeCode rt parsed r = Inl TypeError"
  by (auto simp: routeCode_def isText_def split: option.splits json.splits)

lemma emitRoutes_text:
  "list_all (\<lambda>r. isText (method r) \<and> isText (endpoint r)) rs
     \<Longrightarrow> emitRoutes rt parsed rs code
           = Inr (code @ concat (map (\<lambda>r. registrationText rt (textOf (method r)) (textOf (endpoint r))
                                            (middlewaresOf parsed r)) rs))"
  by (induction rs arbitrary: code) (simp_all add: routeCode_text)

lemma emitRoutes_error:
  "\<not> list_all (\<lambda>r. isText (method r) \<and> isText (endpoint r)) rs
     \<Longrightarrow> emitRoutes rt parsed rs code = Inl TypeError"
proof (induction rs arbitrary: code)
  case Nil
  then show ?case by simp
next
  case (Cons r rs)
  show ?case
  proof (cases "isText (method r) \<and> isText (endpoint r)")
    case True
    with Cons show ?thesis by (simp add: routeCode_text)
  next
    case False
    then show ?thesis by (simp add: routeCode_error)
  qed
qed

lemma generateServerCode_sections:
  "generateServerCode rt parsed =
     (if emittable parsed
      then Inr (gatedText rt (enabled (auth parsed)) (enabled (adminAuth parsed)) parsed)
      else Inl TypeError)"
proof (cases "emittable parsed")
  case True
  then show ?thesis
    unfolding generateServerCode_def Let_def
    by (simp add: emitRoutes_text emittable_def gatedText_def importsText_def corsSection_def
          bodyParserText_def startupText_def middlewaresOf_gated)
next
  case False
  then show ?thesis
    unfolding generateServerCode_def Let_def
    by (simp add: emitRoutes_error emittable_def)
qed

lemma findEntry_none:
  "JNull \<notin> set nodes \<Longrightarrow> \<forall>n\<in>set nodes. \<not> isEntryNode n \<Longrightarrow> findEntry nodes = Inr None"
  by (induction nodes) (auto simp: isEntryNode_def)

lemma quoteJSONString_star: \<open>quoteJSONString ''*'' = ''"*"''\<close>
  by code_simp

lemma stringify_JStr_comp [simp]: "stringify \<circ> JStr = quoteJSONString"
  by (simp add: fun_eq_iff)

section \<open>Lemmas about the recorded origin\<close>

lemma cors_classifyNode:
  "cors (classifyNode node result)
     = (if isMiddlewareNode node \<and> truthy (propertyOf node ''allowed_origins'')
        then \<lparr> enabled = True, origin = propertyOf node ''allowed_origins'' \<rparr>
        else cors result)"
  by (auto simp: classifyNode_def classifyMiddleware_def isMiddlewareNode_def propertyOf_def Let_def
           split: option.splits)

lemma originDeclarations_Cons:
  "originDeclarations (node # nodes)
     = (if isMiddlewareNode node \<and> truthy (propertyOf node ''allowed_origins'')
        then (case propertyOf node ''allowed_origins'' of Some v \<Rightarrow> [v] | None \<Rightarrow> [])
        else [])
       @ originDeclarations nodes"
  by (simp add: originDeclarations_def)

lemma truthy_Some: "truthy v \<Longrightarrow> \<exists>j. v = Some j"
  by (cases v) auto

lemma cors_fold_classifyNode:
  "cors (fold classifyNode nodes result)
     = (if originDeclarations nodes = [] then cors result
        else \<lparr> enabled = True, origin = Some (last (originDeclarations nodes)) \<rparr>)"
proof (induction nodes arbitrary: result)
  case Nil
  then show ?case by (simp add: originDeclarations_def)
next
  case (Cons node nodes)
  show ?case
  proof (cases "isMiddlewareNode node \<and> truthy (propertyOf node ''allowed_origins'')")
    case True
    then obtain v where v: "propertyOf node ''allowed_origins'' = Some v"
      using truthy_Some by blast
    with True show ?thesis
      by (simp add: Cons.IH cors_classifyNode originDeclarations_Cons)
  next
    case False
    then have c: "cors (classifyNode node result) = cors result"
      by (auto simp: cors_classifyNode)
    from False have d: "originDeclarations (node # nodes) = originDeclarations nodes"
      by (auto simp: originDeclarations_Cons)
    show ?thesis
      by (simp add: Cons.IH c d)
  qed
qed

lemma parseNodes_cors:
  assumes "parseNodes nodes = Inr parsed"
  shows "cors parsed
           = (if originDeclarations nodes = [] then \<lparr> enabled = False, origin = None \<rparr>
              else \<lparr> enabled = True, origin = Some (last (originDeclarations nodes)) \<rparr>)"
  using assms
  by (simp add: parseNodes_Inr fold_propagateFrom_frame cors_fold_classifyNode initialResult_def)

section \<open>Lemmas about the case of letters\<close>






section \<open>The claims\<close>

text \<open>
  C1, as the code has it. For a node sequence whose ids are pairwise distinct and on
  which resolution returns, the record of each route node, in document order, has
  \<open>adminRequired\<close> true if and only if the node's own \<^verbatim>\<open>admin_required\<close> is truthy, or
  some middleware node with truthy \<^verbatim>\<open>admin_required\<close> and truthy \<^verbatim>\<open>target\<close> lists the
  route's id in its target (the elements of an array, or the single value). The endpoint
  of every route targeted in this way is in the routes of \<^verbatim>\<open>adminAuth\<close>.
\<close>

theorem C1_admin_propagation:
  assumes "parseNodes nodes = Inr parsed" and "distinct (map (\<lambda>n. get n ''id'') nodes)"
  shows "map (\<lambda>r. (routeId r, adminRequired r)) (routes parsed)
           = map (\<lambda>n. (get n ''id'',
                        truthy (propertyOf n ''admin_required'') \<or> targetedByAdmin nodes n))
                 (filter isRouteNode nodes)
         \<and> (\<forall>n\<in>set nodes. isRouteNode n \<and> targetedByAdmin nodes n
               \<longrightarrow> propertyOf n ''endpoint'' \<in> set (guarded (adminAuth parsed)))"
  using parseNodes_adminRequired [OF assms] parseNodes_guarded [OF assms] by blast

theorem C1_admin_propagation_witness:
  "parseNodes scenarioNodes = Inr scenarioParsed
   \<and> distinct (map (\<lambda>n. get n ''id'') scenarioNodes)
   \<and> adminRoute \<in> set scenarioNodes \<and> isRouteNode adminRoute
   \<and> targetedByAdmin scenarioNodes adminRoute
   \<and> propertyOf adminRoute ''admin_required'' = None
   \<and> map (\<lambda>r. (routeId r, adminRequired r)) (routes scenarioParsed)
        = [(Some (JStr ''5''), True), (Some (JStr ''6''), False)]
   \<and> propertyOf adminRoute ''endpoint'' \<in> set (guarded (adminAuth scenarioParsed))"
proof -
  have h: "parseNodes scenarioNodes = Inr scenarioParsed" by code_simp
  have d: "distinct (map (\<lambda>n. get n ''id'') scenarioNodes)" by code_simp
  have m: "adminRoute \<in> set scenarioNodes" by (simp add: scenarioNodes_def)
  have r: "isRouteNode adminRoute" by code_simp
  have t: "targetedByAdmin scenarioNodes adminRoute" by code_simp
  have o: "propertyOf adminRoute ''admin_required'' = None" by code_simp
  have v: "map (\<lambda>r. (routeId r, adminRequired r)) (routes scenarioParsed)
             = [(Some (JStr ''5''), True), (Some (JStr ''6''), False)]"
    by code_simp
  show ?thesis
    using h d m r t o v C1_admin_propagation [OF h d] by blast
qed

text \<open>
  C1 as stated fails on validated node sequences. With two nodes of id \<^verbatim>\<open>5\<close>, an admin
  middleware that lists \<^verbatim>\<open>5\<close> leaves the route of that id with \<open>adminRequired\<close> false; and
  an admin middleware whose target is the empty string leaves the route whose id is the
  empty string with \<open>adminRequired\<close> false.
\<close>

theorem C1_counterexample:
  "validateConfig (JObj [(''nodes'', JArr duplicateIdNodes)]) = Inr ()
   \<and> filter isRouteNode duplicateIdNodes = [adminRoute]
   \<and> listedByAdminMiddleware duplicateIdNodes adminRoute
   \<and> parseNodes duplicateIdNodes = Inr duplicateIdParsed
   \<and> map adminRequired (routes duplicateIdParsed) = [False]
   \<and> validateConfig (JObj [(''nodes'', JArr emptyIdNodes)]) = Inr ()
   \<and> distinct (map (\<lambda>n. get n ''id'') emptyIdNodes)
   \<and> filter isRouteNode emptyIdNodes = [emptyIdRoute]
   \<and> listedByAdminMiddleware emptyIdNodes emptyIdRoute
   \<and> parseNodes emptyIdNodes = Inr emptyIdParsed
   \<and> map adminRequired (routes emptyIdParsed) = [False]"
  by code_simp

text \<open>
  C2, as the code has it. When resolution returns, the route records are, in document
  order, one for each node with truthy properties, a type other than \<^verbatim>\<open>middleware\<close> and a
  truthy endpoint, and none for any other node; each carries the node's id, its endpoint
  and its method, \<^verbatim>\<open>GET\<close> when the node declares none.
\<close>

theorem C2_one_record_per_route_node:
  assumes "parseNodes nodes = Inr parsed"
  shows "map (\<lambda>r. (routeId r, endpoint r, method r)) (routes parsed)
           = map (\<lambda>n. (get n ''id'', propertyOf n ''endpoint'',
                        if truthy (propertyOf n ''method'') then propertyOf n ''method''
                        else Some (JStr ''GET'')))
                 (filter isRouteNode nodes)"
proof -
  have "map (\<lambda>r. (routeId r, endpoint r, method r)) (routes parsed)
          = map (\<lambda>r. (routeId r, endpoint r, method r)) (map routeRecordOf (filter isRouteNode nodes))"
    using parseNodes_routes_frame [OF assms]
    by (simp only: map_map [symmetric]) (rule frame_proj, simp_all add: sameButAdmin_def)
  then show ?thesis by (simp add: o_def routeRecordOf_def)
qed

theorem C2_one_record_per_route_node_witness:
  "parseNodes scenarioNodes = Inr scenarioParsed
   \<and> filter isRouteNode scenarioNodes = [adminRoute, homeRoute]
   \<and> map (\<lambda>r. (routeId r, endpoint r, method r)) (routes scenarioParsed)
        = [(Some (JStr ''5''), Some (JStr ''/admin''), Some (JStr ''GET'')),
           (Some (JStr ''6''), Some (JStr ''/home''), Some (JStr ''GET''))]"
proof -
  have h: "parseNodes scenarioNodes = Inr scenarioParsed" by code_simp
  have f: "filter isRouteNode scenarioNodes = [adminRoute, homeRoute]" by code_simp
  have v: "map (\<lambda>n. (get n ''id'', propertyOf n ''endpoint'',
                      if truthy (propertyOf n ''method'') then propertyOf n ''method''
                      else Some (JStr ''GET'')))
               [adminRoute, homeRoute]
             = [(Some (JStr ''5''), Some (JStr ''/admin''), Some (JStr ''GET'')),
                (Some (JStr ''6''), Some (JStr ''/home''), Some (JStr ''GET''))]"
    by code_simp
  show ?thesis
    using h f v C2_one_record_per_route_node [OF h] by simp
qed

text \<open>
  C2 as stated fails: a node of type \<^verbatim>\<open>middleware\<close> with an endpoint present gets no
  route record.
\<close>

theorem C2_counterexample:
  "validateConfig (JObj [(''nodes'', JArr typedNodes)]) = Inr ()
   \<and> filter endpointPresent typedNodes = [typedRoute]
   \<and> parseNodes typedNodes = Inr initialResult
   \<and> routes initialResult = []"
  by code_simp

text \<open>
  C3, as the code has it. For every model whose routes have a string method and a string
  endpoint, the emitter returns the imports, the CORS registration, the body parser and
  the middleware definitions, then one registration statement per route record in record
  order, then the startup statement. A registration has the lower-cased method, the
  endpoint, and the middleware names in this order: \<^verbatim>\<open>authMiddleware\<close> if the record's
  \<open>authRequired\<close> is true and \<^verbatim>\<open>auth.enabled\<close>, \<^verbatim>\<open>adminMiddleware\<close> if its \<open>adminRequired\<close> is
  true and \<^verbatim>\<open>adminAuth.enabled\<close>, \<^verbatim>\<open>loggingMiddleware\<close> if \<^verbatim>\<open>logging.enabled\<close>; then the
  handler with the derived message.
\<close>

theorem C3_route_registrations:
  assumes "emittable parsed"
  shows "generateServerCode rt parsed
           = Inr (importsText parsed @ corsSection parsed @ bodyParserText
                  @ (if enabled (auth parsed) then authMiddlewareText else [])
                  @ (if enabled (adminAuth parsed) then adminMiddlewareText else [])
                  @ (if enabled (logging parsed) then loggingMiddlewareText else [])
                  @ concat (map (\<lambda>r. registrationText rt (textOf (method r)) (textOf (endpoint r))
                                        (middlewaresOf parsed r))
                                (routes parsed))
                  @ startupText)
         \<and> (\<forall>r. middlewaresOf parsed r
                   = (if authRequired r \<and> enabled (auth parsed) then [''authMiddleware''] else [])
                   @ (if adminRequired r \<and> enabled (adminAuth parsed) then [''adminMiddleware'']
                      else [])
                   @ (if enabled (logging parsed) then [''loggingMiddleware''] else []))"
proof
  show "generateServerCode rt parsed
           = Inr (importsText parsed @ corsSection parsed @ bodyParserText
                  @ (if enabled (auth parsed) then authMiddlewareText else [])
                  @ (if enabled (adminAuth parsed) then adminMiddlewareText else [])
                  @ (if enabled (logging parsed) then loggingMiddlewareText else [])
                  @ concat (map (\<lambda>r. registrationText rt (textOf (method r)) (textOf (endpoint r))
                                        (middlewaresOf parsed r))
                                (routes parsed))
                  @ startupText)"
    using assms by (simp add: generateServerCode_sections gatedText_def middlewaresOf_gated)
next
  show "\<forall>r. middlewaresOf parsed r
                   = (if authRequired r \<and> enabled (auth parsed) then [''authMiddleware''] else [])
                   @ (if adminRequired r \<and> enabled (adminAuth parsed) then [''adminMiddleware'']
                      else [])
                   @ (if enabled (logging parsed) then [''loggingMiddleware''] else [])"
    by (simp add: middlewaresOf_def Let_def)
qed

theorem C3_route_registrations_witness:
  "emittable scenarioParsed \<and> generateServerCode exampleRuntime scenarioParsed = Inr scenarioText"
proof -
  have e: "emittable scenarioParsed" by code_simp
  have t: "importsText scenarioParsed @ corsSection scenarioParsed @ bodyParserText
             @ (if enabled (auth scenarioParsed) then authMiddlewareText else [])
             @ (if enabled (adminAuth scenarioParsed) then adminMiddlewareText else [])
             @ (if enabled (logging scenarioParsed) then loggingMiddlewareText else [])
             @ concat (map (\<lambda>r. registrationText exampleRuntime (textOf (method r)) (textOf (endpoint r))
                                   (middlewaresOf scenarioParsed r))
                           (routes scenarioParsed))
             @ startupText = scenarioText"
    by code_simp
  show ?thesis
    using e t C3_route_registrations [OF e, of exampleRuntime] by simp
qed

text \<open>
  C3 as stated fails: a record with \<open>authRequired\<close> and \<open>adminRequired\<close> true gets neither
  \<^verbatim>\<open>authMiddleware\<close> nor \<^verbatim>\<open>adminMiddleware\<close> when the two are not enabled; and for the model
  of a validated document whose route declares a number as its method the emitter throws
  and produces no registration.
\<close>

theorem C3_counterexample:
  "parseNodes openNodes = Inr openParsed
   \<and> routes openParsed = [openRoute]
   \<and> authRequired openRoute \<and> adminRequired openRoute
   \<and> claimedNames openParsed openRoute = [''authMiddleware'', ''adminMiddleware'']
   \<and> middlewaresOf openParsed openRoute = []
   \<and> generateServerCode exampleRuntime openParsed = Inr openText
   \<and> validateConfig (JObj [(''nodes'', JArr numericMethodNodes)]) = Inr ()
   \<and> parseNodes numericMethodNodes = Inr numericMethodParsed
   \<and> generateServerCode exampleRuntime numericMethodParsed = Inl TypeError"
  by code_simp

text \<open>
  C4, as the code has it. A document other than \<^verbatim>\<open>null\<close> whose \<^verbatim>\<open>nodes\<close> is missing or no
  array fails with the error of the configuration shape; a document whose \<^verbatim>\<open>nodes\<close> is an
  array that holds no \<^verbatim>\<open>null\<close> and no entry node fails with the error of the missing
  entry. Every failure of validation is the failure of generation, and the files are
  left as they were.
\<close>

theorem C4_validation_failures:
  "(config \<noteq> JNull \<and> nodesArray config = None
      \<longrightarrow> generateServer rt config outputPath files = (files, Some ConfigShapeError))
   \<and> (nodesArray config = Some nodes \<and> JNull \<notin> set nodes \<and> (\<forall>n\<in>set nodes. \<not> isEntryNode n)
      \<longrightarrow> generateServer rt config outputPath files = (files, Some MissingEntryError))
   \<and> (validateConfig config = Inl e
      \<longrightarrow> generateServer rt config outputPath files = (files, Some e))"
proof (intro conjI impI)
  assume a: "config \<noteq> JNull \<and> nodesArray config = None"
  then have "\<not> isArray (get config ''nodes'')"
    by (auto simp: nodesArray_def isArray_def split: option.splits json.splits)
  with a have "validateConfig config = Inl ConfigShapeError"
    by (simp add: validateConfig_def)
  then show "generateServer rt config outputPath files = (files, Some ConfigShapeError)"
    by (simp add: generateServer_def)
next
  assume a: "nodesArray config = Some nodes \<and> JNull \<notin> set nodes
               \<and> (\<forall>n\<in>set nodes. \<not> isEntryNode n)"
  then have g: "get config ''nodes'' = Some (JArr nodes)"
    by (auto simp: nodesArray_def split: option.splits json.splits)
  then have c: "config \<noteq> JNull" by auto
  have "findEntry nodes = Inr None"
    using a by (simp add: findEntry_none)
  with g c have "validateConfig config = Inl MissingEntryError"
    by (simp add: validateConfig_def isArray_def)
  then show "generateServer rt config outputPath files = (files, Some MissingEntryError)"
    by (simp add: generateServer_def)
next
  assume "validateConfig config = Inl e"
  then show "generateServer rt config outputPath files = (files, Some e)"
    by (simp add: generateServer_def)
qed

theorem C4_validation_failures_witness:
  "shapelessDocument \<noteq> JNull \<and> nodesArray shapelessDocument = None
   \<and> generateServer exampleRuntime shapelessDocument ''server.js'' Map.empty = (Map.empty, Some ConfigShapeError)
   \<and> nodesArray routeOnlyDocument = Some [homeRoute] \<and> JNull \<notin> set [homeRoute]
   \<and> \<not> isEntryNode homeRoute
   \<and> generateServer exampleRuntime routeOnlyDocument ''server.js'' Map.empty = (Map.empty, Some MissingEntryError)
   \<and> validateConfig nullOnlyDocument = Inl TypeError
   \<and> generateServer exampleRuntime nullOnlyDocument ''server.js'' Map.empty = (Map.empty, Some TypeError)"
proof -
  have a: "shapelessDocument \<noteq> JNull \<and> nodesArray shapelessDocument = None" by code_simp
  have b: "nodesArray routeOnlyDocument = Some [homeRoute] \<and> JNull \<notin> set [homeRoute]"
    by code_simp
  have n: "\<not> isEntryNode homeRoute" by code_simp
  then have q: "\<forall>n\<in>set [homeRoute]. \<not> isEntryNode n" by simp
  have c: "validateConfig nullOnlyDocument = Inl TypeError" by code_simp
  show ?thesis
    using a b n q c
      C4_validation_failures [where rt = exampleRuntime and config = shapelessDocument and outputPath = "''server.js''"
                                and files = Map.empty and nodes = "[homeRoute]" and e = TypeError]
      C4_validation_failures [where rt = exampleRuntime and config = routeOnlyDocument and outputPath = "''server.js''"
                                and files = Map.empty and nodes = "[homeRoute]" and e = TypeError]
      C4_validation_failures [where rt = exampleRuntime and config = nullOnlyDocument and outputPath = "''server.js''"
                                and files = Map.empty and nodes = "[homeRoute]" and e = TypeError]
    by blast
qed

text \<open>
  C4 as stated fails: the document \<^verbatim>\<open>null\<close> has no \<^verbatim>\<open>nodes\<close> field, and the document whose
  only node is \<^verbatim>\<open>null\<close> has no entry node; generation fails on both with a type error, not
  with either of the two named errors.
\<close>

theorem C4_counterexample:
  "nodesArray JNull = None
   \<and> generateServer exampleRuntime JNull ''server.js'' Map.empty = (Map.empty, Some TypeError)
   \<and> nodesArray nullOnlyDocument = Some [JNull]
   \<and> \<not> isEntryNode JNull
   \<and> generateServer exampleRuntime nullOnlyDocument ''server.js'' Map.empty = (Map.empty, Some TypeError)
   \<and> TypeError \<noteq> ConfigShapeError \<and> TypeError \<noteq> MissingEntryError"
  by (simp add: nodesArray_def generateServer_def validateConfig_def nullOnlyDocument_def
        isEntryNode_def ConfigShapeError_def MissingEntryError_def isArray_def)

text \<open>
  C5. When resolution returns, the record of each route node has \<open>authRequired\<close> false
  exactly when the node's \<^verbatim>\<open>auth_required\<close> is the boolean \<^verbatim>\<open>false\<close>, and true when the
  field is absent or holds anything else.
\<close>

theorem C5_auth_required_default:
  assumes "parseNodes nodes = Inr parsed"
  shows "map authRequired (routes parsed)
           = map (\<lambda>n. propertyOf n ''auth_required'' \<noteq> Some (JBool False))
                 (filter isRouteNode nodes)"
proof -
  have "map authRequired (routes parsed)
          = map authRequired (map routeRecordOf (filter isRouteNode nodes))"
    using parseNodes_routes_frame [OF assms]
    by (simp only: map_map [symmetric]) (rule frame_proj, simp_all add: sameButAdmin_def)
  then show ?thesis by (simp add: o_def routeRecordOf_def)
qed

theorem C5_auth_required_default_witness:
  "parseNodes scenarioNodes = Inr scenarioParsed
   \<and> filter isRouteNode scenarioNodes = [adminRoute, homeRoute]
   \<and> propertyOf adminRoute ''auth_required'' = None
   \<and> propertyOf homeRoute ''auth_required'' = Some (JBool False)
   \<and> map authRequired (routes scenarioParsed) = [True, False]"
proof -
  have h: "parseNodes scenarioNodes = Inr scenarioParsed" by code_simp
  have f: "filter isRouteNode scenarioNodes = [adminRoute, homeRoute]" by code_simp
  have a: "propertyOf adminRoute ''auth_required'' = None" by code_simp
  have b: "propertyOf homeRoute ''auth_required'' = Some (JBool False)" by code_simp
  show ?thesis
    using h f a b C5_auth_required_default [OF h] by simp
qed

text \<open>
  C6, as the code has it. When resolution and emission return, CORS is enabled exactly
  when some middleware node declares a truthy \<^verbatim>\<open>allowed_origins\<close>, and the recorded origin
  is the last such value. The text then starts with the two imports and the application,
  followed by the CORS registration. The registration renders the bare wildcard when the
  recorded origin is the wildcard or an array that contains it, and otherwise the JSON
  text of the recorded origin: for an array of strings the bracketed list of the quoted
  origins, for a string the quoted string.
\<close>

theorem C6_cors_registration:
  assumes "parseNodes nodes = Inr parsed" and "generateServerCode rt parsed = Inr code"
  shows \<open>enabled (cors parsed) = (originDeclarations nodes \<noteq> [])
         \<and> (originDeclarations nodes \<noteq> []
              \<longrightarrow> origin (cors parsed) = Some (last (originDeclarations nodes))
                  \<and> (\<exists>rest. code = ''const express = require("express");\<newline>''
                                   @ ''const cors = require("cors");\<newline>''
                                   @ ''const app = express();\<newline>\<newline>''
                                   @ corsLine (if isOrContainsWildcard
                                                    (Some (last (originDeclarations nodes)))
                                               then ''"*"''
                                               else stringify (last (originDeclarations nodes)))
                                   @ rest))
         \<and> stringify (JArr (map JStr origins))
             = ''['' @ join '','' (map quoteJSONString origins) @ '']''
         \<and> stringify (JStr s) = quoteJSONString s\<close>
proof (intro conjI impI)
  note c = parseNodes_cors [OF assms(1)]
  show "enabled (cors parsed) = (originDeclarations nodes \<noteq> [])"
    using c by simp
  show "stringify (JArr (map JStr origins)) = ''['' @ join '','' (map quoteJSONString origins) @ '']''"
    by simp
  show "stringify (JStr s) = quoteJSONString s"
    by simp
  assume d: "originDeclarations nodes \<noteq> []"
  let ?v = "last (originDeclarations nodes)"
  from c d show o: "origin (cors parsed) = Some ?v" by simp
  from c d have e: "enabled (cors parsed)" by simp
  have "emittable parsed"
    using assms(2) by (simp add: generateServerCode_sections split: if_splits)
  then have "code = gatedText rt (enabled (auth parsed)) (enabled (adminAuth parsed)) parsed"
    using assms(2) by (simp add: generateServerCode_sections)
  then have code: \<open>\<exists>rest. code = ''const express = require("express");\<newline>''
                       @ ''const cors = require("cors");\<newline>''
                       @ ''const app = express();\<newline>\<newline>''
                       @ corsRegistration parsed @ rest\<close>
    using e by (simp add: gatedText_def importsText_def corsSection_def)
  have \<open>corsRegistration parsed
          = corsLine (if isOrContainsWildcard (Some ?v) then ''"*"'' else stringify ?v)\<close>
    unfolding corsRegistration_def corsLine_def o Let_def
    by (cases ?v) (auto simp: isOrContainsWildcard_def stringifyValue_def quoteJSONString_star)
  with code show \<open>\<exists>rest. code = ''const express = require("express");\<newline>''
                       @ ''const cors = require("cors");\<newline>''
                       @ ''const app = express();\<newline>\<newline>''
                       @ corsLine (if isOrContainsWildcard (Some ?v) then ''"*"''
                                   else stringify ?v)
                       @ rest\<close>
    by simp
qed

theorem C6_cors_registration_witness:
  \<open>parseNodes wildcardNodes = Inr wildcardParsed
   \<and> generateServerCode exampleRuntime wildcardParsed = Inr wildcardText
   \<and> originDeclarations wildcardNodes = [JArr [JStr ''*'']]
   \<and> enabled (cors wildcardParsed)
   \<and> origin (cors wildcardParsed) = Some (JArr [JStr ''*''])
   \<and> (\<exists>rest. wildcardText = ''const express = require("express");\<newline>''
                   @ ''const cors = require("cors");\<newline>''
                   @ ''const app = express();\<newline>\<newline>''
                   @ ''app.use(cors({ origin: "*" }));\<newline>'' @ rest)
   \<and> parseNodes twoOriginsNodes = Inr twoOriginsParsed
   \<and> generateServerCode exampleRuntime twoOriginsParsed = Inr twoOriginsText
   \<and> originDeclarations twoOriginsNodes
        = [JArr [JStr ''https://a.example'', JStr ''https://b.example'']]
   \<and> enabled (cors twoOriginsParsed)
   \<and> (\<exists>rest. twoOriginsText = ''const express = require("express");\<newline>''
                   @ ''const cors = require("cors");\<newline>''
                   @ ''const app = express();\<newline>\<newline>''
                   @ ''app.use(cors({ origin: ["https://a.example","https://b.example"] }));\<newline>''
                   @ rest)\<close>
proof -
  have w: "parseNodes wildcardNodes = Inr wildcardParsed"
    "generateServerCode exampleRuntime wildcardParsed = Inr wildcardText"
    by code_simp+
  have wd: "originDeclarations wildcardNodes = [JArr [JStr ''*'']]" by code_simp
  have wn: "originDeclarations wildcardNodes \<noteq> []" unfolding wd by simp
  have wlast: "last (originDeclarations wildcardNodes) = JArr [JStr ''*'']" unfolding wd by simp
  have wl: \<open>corsLine (if isOrContainsWildcard (Some (JArr [JStr ''*''])) then ''"*"''
                      else stringify (JArr [JStr ''*'']))
             = ''app.use(cors({ origin: "*" }));\<newline>''\<close>
    by code_simp
  have t: "parseNodes twoOriginsNodes = Inr twoOriginsParsed"
    "generateServerCode exampleRuntime twoOriginsParsed = Inr twoOriginsText"
    by code_simp+
  have td: "originDeclarations twoOriginsNodes
              = [JArr [JStr ''https://a.example'', JStr ''https://b.example'']]"
    by code_simp
  have tn: "originDeclarations twoOriginsNodes \<noteq> []" unfolding td by simp
  have tlast: "last (originDeclarations twoOriginsNodes)
                 = JArr [JStr ''https://a.example'', JStr ''https://b.example'']"
    unfolding td by simp
  have tl: \<open>corsLine (if isOrContainsWildcard
                           (Some (JArr [JStr ''https://a.example'', JStr ''https://b.example'']))
                      then ''"*"''
                      else stringify (JArr [JStr ''https://a.example'', JStr ''https://b.example'']))
             = ''app.use(cors({ origin: ["https://a.example","https://b.example"] }));\<newline>''\<close>
    by code_simp
  note cw = C6_cors_registration [OF w, of "[]" "[]"]
  note ct = C6_cors_registration [OF t, of "[]" "[]"]
  from cw wn have w1: "enabled (cors wildcardParsed)" by blast
  from cw wn have "origin (cors wildcardParsed) = Some (last (originDeclarations wildcardNodes))"
    by blast
  then have w2: "origin (cors wildcardParsed) = Some (JArr [JStr ''*''])"
    unfolding wlast .
  from cw wn have \<open>\<exists>rest. wildcardText = ''const express = require("express");\<newline>''
                   @ ''const cors = require("cors");\<newline>''
                   @ ''const app = express();\<newline>\<newline>''
                   @ corsLine (if isOrContainsWildcard
                                    (Some (last (originDeclarations wildcardNodes)))
                               then ''"*"''
                               else stringify (last (originDeclarations wildcardNodes)))
                   @ rest\<close>
    by blast
  then have w3: \<open>\<exists>rest. wildcardText = ''const express = require("express");\<newline>''
                   @ ''const cors = require("cors");\<newline>''
                   @ ''const app = express();\<newline>\<newline>''
                   @ ''app.use(cors({ origin: "*" }));\<newline>'' @ rest\<close>
    unfolding wlast wl .
  from ct tn have t1: "enabled (cors twoOriginsParsed)" by blast
  from ct tn have \<open>\<exists>rest. twoOriginsText = ''const express = require("express");\<newline>''
                   @ ''const cors = require("cors");\<newline>''
                   @ ''const app = express();\<newline>\<newline>''
                   @ corsLine (if isOrContainsWildcard
                                    (Some (last (originDeclarations twoOriginsNodes)))
                               then ''"*"''
                               else stringify (last (originDeclarations twoOriginsNodes)))
                   @ rest\<close>
    by blast
  then have t3: \<open>\<exists>rest. twoOriginsText = ''const express = require("express");\<newline>''
                   @ ''const cors = require("cors");\<newline>''
                   @ ''const app = express();\<newline>\<newline>''
                   @ ''app.use(cors({ origin: ["https://a.example","https://b.example"] }));\<newline>''
                   @ rest\<close>
    unfolding tlast tl .
  show ?thesis
    using w wd w1 w2 w3 t td t1 t3 by (intro conjI) assumption+
qed

text \<open>
  C6 as stated fails: a validated document that declares a single origin as a string
  records the string, which is neither the wildcard nor contains it, and the registration
  renders the quoted string, not a literal list.
\<close>

theorem C6_counterexample:
  \<open>validateConfig (JObj [(''nodes'', JArr stringOriginNodes)]) = Inr ()
   \<and> parseNodes stringOriginNodes = Inr stringOriginParsed
   \<and> enabled (cors stringOriginParsed)
   \<and> origin (cors stringOriginParsed) = Some (JStr ''https://a.example'')
   \<and> \<not> isOrContainsWildcard (origin (cors stringOriginParsed))
   \<and> claimedOriginList (JStr ''https://a.example'') = ''["https://a.example"]''
   \<and> corsRegistration stringOriginParsed = corsLine ''"https://a.example"''
   \<and> generateServerCode exampleRuntime stringOriginParsed = Inr stringOriginText\<close>
  by code_simp

text \<open>
  C7, as the code has it. Resolution returns a model exactly on the node sequences that
  hold no \<^verbatim>\<open>null\<close>. A node whose properties are missing or are no object changes nothing
  in either pass, and a target id that no node carries changes nothing. A repeated id and
  a malformed value inside the properties raise no error, and such a node is not
  skipped: a node with truthy properties, a type other than \<^verbatim>\<open>middleware\<close> and a truthy
  endpoint gets its record whatever the records made before it.
\<close>

theorem C7_resolution_total:
  "(\<exists>parsed. parseNodes nodes = Inr parsed) = (JNull \<notin> set nodes)
   \<and> (\<not> hasObjectProperties node
        \<longrightarrow> classifyNode node result = result \<and> propagateFrom nodes node result = result)
   \<and> ((\<forall>n\<in>set nodes. \<not> strictEquals (get n ''id'') (Some targetId))
        \<longrightarrow> propagateTo nodes targetId result = result)
   \<and> (isRouteNode node
        \<longrightarrow> routes (classifyNode node result) = routes result @ [routeRecordOf node])"
proof (intro conjI impI)
  show "(\<exists>parsed. parseNodes nodes = Inr parsed) = (JNull \<notin> set nodes)"
    by (simp add: parseNodes_Inr)
next
  assume a: "\<not> hasObjectProperties node"
  have inert: "get p k = None" if "get node ''properties'' = Some p" for p k
    using a that by (cases p) (simp_all add: hasObjectProperties_def)
  show "classifyNode node result = result"
    by (auto simp: classifyNode_def inert split: option.splits)
next
  assume a: "\<not> hasObjectProperties node"
  have inert: "get p k = None" if "get node ''properties'' = Some p" for p k
    using a that by (cases p) (simp_all add: hasObjectProperties_def)
  have "propertyOf node ''type'' = None"
    by (simp add: propertyOf_def inert split: option.splits)
  then show "propagateFrom nodes node result = result"
    by (simp add: propagateFrom_def)
next
  assume "\<forall>n\<in>set nodes. \<not> strictEquals (get n ''id'') (Some targetId)"
  then have "List.find (\<lambda>n. strictEquals (get n ''id'') (Some targetId)) nodes = None"
    by (simp add: find_None_iff)
  then show "propagateTo nodes targetId result = result"
    by (simp add: propagateTo_def)
next
  assume "isRouteNode node"
  then show "routes (classifyNode node result) = routes result @ [routeRecordOf node]"
    by (simp add: routes_classifyNode)
qed

theorem C7_resolution_total_witness:
  "JNull \<notin> set anomalousNodes
   \<and> parseNodes anomalousNodes = Inr anomalousParsed
   \<and> \<not> hasObjectProperties bareNode
   \<and> classifyNode bareNode anomalousParsed = anomalousParsed
   \<and> propagateFrom anomalousNodes bareNode anomalousParsed = anomalousParsed
   \<and> truthy (get oopsNode ''properties'') \<and> \<not> hasObjectProperties oopsNode
   \<and> classifyNode oopsNode anomalousParsed = anomalousParsed
   \<and> propagateFrom anomalousNodes oopsNode anomalousParsed = anomalousParsed
   \<and> \<not> (\<exists>n\<in>set anomalousNodes. strictEquals (get n ''id'') (Some (JStr ''99'')))
   \<and> propagateTo anomalousNodes (JStr ''99'') anomalousParsed = anomalousParsed
   \<and> isRouteNode twinRoute
   \<and> map routeId (routes scenarioParsed) = [Some (JStr ''5''), Some (JStr ''6'')]
   \<and> get twinRoute ''id'' = Some (JStr ''5'')
   \<and> routes (classifyNode twinRoute scenarioParsed)
        = routes scenarioParsed @ [routeRecordOf twinRoute]"
proof -
  have n: "JNull \<notin> set anomalousNodes" by code_simp
  have p: "parseNodes anomalousNodes = Inr anomalousParsed" by code_simp
  have b: "\<not> hasObjectProperties bareNode" by code_simp
  have o: "truthy (get oopsNode ''properties'') \<and> \<not> hasObjectProperties oopsNode" by code_simp
  have x: "\<not> (\<exists>n\<in>set anomalousNodes. strictEquals (get n ''id'') (Some (JStr ''99'')))"
    by code_simp
  then have d: "\<forall>n\<in>set anomalousNodes. \<not> strictEquals (get n ''id'') (Some (JStr ''99''))"
    by blast
  have t: "isRouteNode twinRoute" by code_simp
  have i: "map routeId (routes scenarioParsed) = [Some (JStr ''5''), Some (JStr ''6'')]
           \<and> get twinRoute ''id'' = Some (JStr ''5'')"
    by code_simp
  show ?thesis
    using n p b o x d t i
      C7_resolution_total [of anomalousNodes bareNode anomalousParsed "JStr ''99''"]
      C7_resolution_total [of anomalousNodes oopsNode anomalousParsed "JStr ''99''"]
      C7_resolution_total [of anomalousNodes twinRoute scenarioParsed "JStr ''99''"]
    by blast
qed

text \<open>
  C7 as stated fails in three ways. A node sequence that passes validation and holds a
  \<^verbatim>\<open>null\<close> after the entry node makes resolution throw. A node with a repeated id is not
  skipped: two routes of id \<^verbatim>\<open>5\<close> give two records. A malformed value in the properties is
  not skipped: a route whose endpoint is a number gets a record, on which the emitter
  throws.
\<close>

theorem C7_counterexample:
  "validateConfig (JObj [(''nodes'', JArr nullAfterEntry)]) = Inr ()
   \<and> parseNodes nullAfterEntry = Inl TypeError
   \<and> parseNodes twinNodes = Inr twinParsed
   \<and> map routeId (routes twinParsed) = [Some (JStr ''5''), Some (JStr ''5'')]
   \<and> map endpoint (routes twinParsed) = [Some (JStr ''/admin''), Some (JStr ''/other'')]
   \<and> parseNodes numericEndpointNodes = Inr numericEndpointParsed
   \<and> map endpoint (routes numericEndpointParsed) = [Some (JNum ''5'')]
   \<and> generateServerCode exampleRuntime numericEndpointParsed = Inl TypeError"
  by code_simp



text \<open>
  C10. When resolution returns, \<^verbatim>\<open>adminAuth.enabled\<close> holds exactly when some middleware
  node has a truthy \<^verbatim>\<open>admin_required\<close>, and \<^verbatim>\<open>auth.enabled\<close> exactly when some middleware
  node has a truthy \<^verbatim>\<open>auth_required\<close>. When \<^verbatim>\<open>adminAuth.enabled\<close> is false, no route gets
  \<^verbatim>\<open>adminMiddleware\<close>, whatever its own \<open>adminRequired\<close>, and the emitted text is the one
  without the admin definition and without that name in any registration; likewise for
  \<^verbatim>\<open>auth.enabled\<close> and \<^verbatim>\<open>authMiddleware\<close>.
\<close>

theorem C10_enablement_gating:
  assumes "parseNodes nodes = Inr parsed"
  shows "enabled (adminAuth parsed)
           = (\<exists>n\<in>set nodes. isMiddlewareNode n \<and> truthy (propertyOf n ''admin_required''))
         \<and> enabled (auth parsed)
           = (\<exists>n\<in>set nodes. isMiddlewareNode n \<and> truthy (propertyOf n ''auth_required''))
         \<and> (\<not> enabled (adminAuth parsed)
              \<longrightarrow> (\<forall>r. ''adminMiddleware'' \<notin> set (middlewaresOf parsed r))
                  \<and> (\<forall>code. generateServerCode rt parsed = Inr code
                        \<longrightarrow> code = gatedText rt (enabled (auth parsed)) False parsed))
         \<and> (\<not> enabled (auth parsed)
              \<longrightarrow> (\<forall>r. ''authMiddleware'' \<notin> set (middlewaresOf parsed r))
                  \<and> (\<forall>code. generateServerCode rt parsed = Inr code
                        \<longrightarrow> code = gatedText rt False (enabled (adminAuth parsed)) parsed))"
proof -
  have p: "parsed = fold (propagateFrom nodes) nodes (fold classifyNode nodes initialResult)"
    using assms by (simp add: parseNodes_Inr)
  have a: "enabled (adminAuth parsed)
             = (\<exists>n\<in>set nodes. isMiddlewareNode n \<and> truthy (propertyOf n ''admin_required''))"
    unfolding p by (simp add: fold_propagateFrom_frame adminEnabled_fold_classifyNode initialResult_def)
  have b: "enabled (auth parsed)
             = (\<exists>n\<in>set nodes. isMiddlewareNode n \<and> truthy (propertyOf n ''auth_required''))"
    unfolding p by (simp add: fold_propagateFrom_frame authEnabled_fold_classifyNode initialResult_def)
  have c: "generateServerCode rt parsed = Inr code
             \<Longrightarrow> code = gatedText rt (enabled (auth parsed)) (enabled (adminAuth parsed)) parsed" for code
    by (simp add: generateServerCode_sections split: if_splits)
  have d: "\<not> enabled (adminAuth parsed) \<Longrightarrow> ''adminMiddleware'' \<notin> set (middlewaresOf parsed r)" for r
    by (simp add: middlewaresOf_def Let_def)
  have e: "\<not> enabled (auth parsed) \<Longrightarrow> ''authMiddleware'' \<notin> set (middlewaresOf parsed r)" for r
    by (simp add: middlewaresOf_def Let_def)
  show ?thesis
  proof (intro conjI impI allI)
    show "enabled (adminAuth parsed)
            = (\<exists>n\<in>set nodes. isMiddlewareNode n \<and> truthy (propertyOf n ''admin_required''))"
      by (rule a)
    show "enabled (auth parsed)
            = (\<exists>n\<in>set nodes. isMiddlewareNode n \<and> truthy (propertyOf n ''auth_required''))"
      by (rule b)
  next
    fix r assume "\<not> enabled (adminAuth parsed)"
    then show "''adminMiddleware'' \<notin> set (middlewaresOf parsed r)" by (rule d)
  next
    fix code
    assume "\<not> enabled (adminAuth parsed)" and "generateServerCode rt parsed = Inr code"
    then show "code = gatedText rt (enabled (auth parsed)) False parsed"
      using c [of code] by simp
  next
    fix r assume "\<not> enabled (auth parsed)"
    then show "''authMiddleware'' \<notin> set (middlewaresOf parsed r)" by (rule e)
  next
    fix code
    assume "\<not> enabled (auth parsed)" and "generateServerCode rt parsed = Inr code"
    then show "code = gatedText rt False (enabled (adminAuth parsed)) parsed"
      using c [of code] by simp
  qed
qed

theorem C10_enablement_gating_witness:
  "parseNodes openNodes = Inr openParsed
   \<and> \<not> (\<exists>n\<in>set openNodes. isMiddlewareNode n \<and> truthy (propertyOf n ''admin_required''))
   \<and> \<not> (\<exists>n\<in>set openNodes. isMiddlewareNode n \<and> truthy (propertyOf n ''auth_required''))
   \<and> truthy (propertyOf ownAdminRoute ''admin_required'')
   \<and> routes openParsed = [openRoute] \<and> adminRequired openRoute \<and> authRequired openRoute
   \<and> \<not> enabled (adminAuth openParsed) \<and> \<not> enabled (auth openParsed)
   \<and> ''adminMiddleware'' \<notin> set (middlewaresOf openParsed openRoute)
   \<and> ''authMiddleware'' \<notin> set (middlewaresOf openParsed openRoute)
   \<and> generateServerCode exampleRuntime openParsed = Inr openText
   \<and> openText = gatedText exampleRuntime False False openParsed"
proof -
  have h: "parseNodes openNodes = Inr openParsed" by code_simp
  have n: "\<not> (\<exists>n\<in>set openNodes. isMiddlewareNode n \<and> truthy (propertyOf n ''admin_required''))
           \<and> \<not> (\<exists>n\<in>set openNodes. isMiddlewareNode n \<and> truthy (propertyOf n ''auth_required''))"
    by code_simp
  have r: "truthy (propertyOf ownAdminRoute ''admin_required'')
           \<and> routes openParsed = [openRoute] \<and> adminRequired openRoute \<and> authRequired openRoute"
    by code_simp
  have g: "generateServerCode exampleRuntime openParsed = Inr openText" by code_simp
  note t = C10_enablement_gating [OF h, of exampleRuntime]
  from t n have off: "\<not> enabled (adminAuth openParsed)" "\<not> enabled (auth openParsed)"
    by simp_all
  from t off have m: "''adminMiddleware'' \<notin> set (middlewaresOf openParsed openRoute)"
    "''authMiddleware'' \<notin> set (middlewaresOf openParsed openRoute)"
    by blast+
  from t off(1) have "\<forall>code. generateServerCode exampleRuntime openParsed = Inr code
                        \<longrightarrow> code = gatedText exampleRuntime (enabled (auth openParsed)) False openParsed"
    by blast
  with g off(2) have x: "openText = gatedText exampleRuntime False False openParsed"
    by simp
  show ?thesis
    using h n r g off m x by simp
qed

end
